theory Spec2Isabelle
  imports Complex_Main "HOL-Library.Word" "HOL-Library.Sublist"
begin

section \<open>The uploader: a webhook receiver that turns mailed images into blog posts\<close>

text \<open>
  This theory embeds the pure core of \<^verbatim>\<open>server.py\<close>: the verification of a Mailgun
  webhook request with its single-slot replay memory, the validation of the attachment
  descriptor, the assignment of the next post identifier, the computation of the four
  rendition sizes and the generation of the \<^verbatim>\<open><img>\<close> tag.

  Conventions of the embedding.
  \<^item> A Python \<^verbatim>\<open>str\<close> is a \<open>string\<close>, a list of characters with code points 0 to 255.
    This is the range of the strings that \<^verbatim>\<open>request.forms.get\<close> hands to the server:
    bottle decodes form fields as Latin-1.
  \<^item> A Python \<^verbatim>\<open>int\<close> is an \<open>int\<close>; a Python \<^verbatim>\<open>float\<close> is the real number it stands
    for. The conversion of an integer beyond the range of binary64 raises, as in Python.
    Within the range the model computes exactly, where binary64 rounds; each theorem
    that rests on float arithmetic is stated where the two agree, and says so.
  \<^item> Every exception is a value of type \<open>error\<close>; a function that can raise returns
    \<open>error + 'a\<close>, with \<open>Inl\<close> for the exception.
  \<^item> The one module-level variable that is assigned after import,
    \<^verbatim>\<open>cached_mailgun_token\<close>, is passed in and returned.
  \<^item> What the module gets from its libraries or its configuration and cannot compute
    itself (the HMAC-SHA256 primitive, the configured key, the clock, the HTTP
    response) is a parameter of the function that uses it.
\<close>

subsection \<open>Exceptions\<close>

datatype error =
    ValueError string        \<comment> \<open>\<^verbatim>\<open>raise ValueError(msg)\<close>\<close>
  | InvalidLiteral string    \<comment> \<open>the \<^verbatim>\<open>ValueError\<close> of \<^verbatim>\<open>int(s)\<close> on a text that is no integer\<close>
  | TypeError string
  | IndexError
  | KeyError string
  | AttributeError string
  | ZeroDivisionError
  | OverflowError string     \<comment> \<open>an integer too large to convert to a float\<close>
  | OSError string           \<comment> \<open>what \<^verbatim>\<open>open\<close> raises\<close>
  | RequestException string  \<comment> \<open>what \<^verbatim>\<open>requests\<close> raises, also from \<^verbatim>\<open>raise_for_status\<close>\<close>
  | NotModelled string       \<comment> \<open>no exception: a library path the model has no value for\<close>

subsection \<open>Python built-ins used by the module\<close>

type_synonym byte = "8 word"

definition is_ascii :: "char \<Rightarrow> bool" where
  "is_ascii c = ((of_char c :: nat) < 128)"

definition is_digit :: "char \<Rightarrow> bool" where
  "is_digit c = (48 \<le> (of_char c :: nat) \<and> (of_char c :: nat) \<le> 57)"

definition digit_val :: "char \<Rightarrow> nat" where
  "digit_val c = of_char c - 48"

text \<open>
  The characters below code point 256 that \<^verbatim>\<open>int\<close> skips around a literal: tab to
  carriage return, the space, NEL and the no-break space. The separators FS, GS, RS and
  US (28 to 31) are white space for \<^verbatim>\<open>str.isspace\<close> but not for \<^verbatim>\<open>int\<close>, which raises
  on them.
\<close>

definition is_space :: "char \<Rightarrow> bool" where
  "is_space c =
     (let n = (of_char c :: nat)
      in (9 \<le> n \<and> n \<le> 13) \<or> n = 32 \<or> n = 133 \<or> n = 160)"

definition strip :: "string \<Rightarrow> string" where
  "strip s = rev (dropWhile is_space (rev (dropWhile is_space s)))"

text \<open>
  \<^verbatim>\<open>int(s)\<close> in base ten: white space around the literal is dropped, one sign may
  lead, and the digits may be grouped by single underscores. Everything else raises.
  Python 3.11 and later also raise on a text of more than 4300 digits; the model has no
  such limit, so it is \<^verbatim>\<open>int\<close> on every text of at most 4300 characters.
\<close>

fun digits_from :: "nat \<Rightarrow> string \<Rightarrow> nat option" where
  "digits_from acc [] = Some acc"
| "digits_from acc (c # cs) =
     (if is_digit c then digits_from (10 * acc + digit_val c) cs
      else if c = CHR ''_'' then
        (case cs of
           [] \<Rightarrow> None
         | d # ds \<Rightarrow>
             if is_digit d then digits_from (10 * acc + digit_val d) ds else None)
      else None)"

definition digits :: "string \<Rightarrow> nat option" where
  "digits s =
     (case s of
        [] \<Rightarrow> None
      | c # cs \<Rightarrow> if is_digit c then digits_from (digit_val c) cs else None)"

definition py_int :: "string \<Rightarrow> int option" where
  "py_int s =
     (case strip s of
        [] \<Rightarrow> None
      | c # cs \<Rightarrow>
          if c = CHR ''-'' then map_option (\<lambda>n. - int n) (digits cs)
          else if c = CHR ''+'' then map_option int (digits cs)
          else map_option int (digits (c # cs)))"

text \<open>\<^verbatim>\<open>'%d' % n\<close> and \<^verbatim>\<open>str(n)\<close> for an integer: decimal digits, a minus sign when negative.\<close>

definition digit_char :: "nat \<Rightarrow> char" where
  "digit_char d = ''0123456789'' ! d"

fun str_nat :: "nat \<Rightarrow> string" where
  "str_nat n = (if n < 10 then [digit_char n] else str_nat (n div 10) @ [digit_char (n mod 10)])"

declare str_nat.simps [simp del]

definition str_int :: "int \<Rightarrow> string" where
  "str_int i = (if i < 0 then CHR ''-'' # str_nat (nat (- i)) else str_nat (nat i))"

text \<open>\<^verbatim>\<open>s.encode('utf-8')\<close> on code points below 256: one byte, or two from 128 on.\<close>

definition encode_char :: "char \<Rightarrow> byte list" where
  "encode_char c =
     (let n = (of_char c :: nat)
      in if n < 128 then [of_nat n] else [of_nat (192 + n div 64), of_nat (128 + n mod 64)])"

definition encode_utf8 :: "string \<Rightarrow> byte list" where
  "encode_utf8 s = concat (map encode_char s)"

text \<open>\<^verbatim>\<open>hexdigest()\<close>: two lower-case hexadecimal digits for every byte.\<close>

definition hex_char :: "nat \<Rightarrow> char" where
  "hex_char d = ''0123456789abcdef'' ! d"

definition hex_byte :: "byte \<Rightarrow> string" where
  "hex_byte b = [hex_char (unat b div 16), hex_char (unat b mod 16)]"

definition hexdigest :: "byte list \<Rightarrow> string" where
  "hexdigest bs = concat (map hex_byte bs)"

text \<open>
  \<^verbatim>\<open>float - int\<close> converts the integer to binary64 first, rounding to 53 significant
  bits, and raises an \<^verbatim>\<open>OverflowError\<close> when the result is beyond the largest finite
  float: from \<open>2 ^ 1024 - 2 ^ 970\<close> on, the integer rounds to \<open>2 ^ 1024\<close>.
\<close>

definition too_large_for_float :: "int \<Rightarrow> bool" where
  "too_large_for_float i \<longleftrightarrow> 2 ^ 1024 - 2 ^ 970 \<le> \<bar>i\<bar>"

text \<open>
  \<^verbatim>\<open>hmac.compare_digest(a, b)\<close> on two strings: the comparison itself raises a
  \<^verbatim>\<open>TypeError\<close> when either string has a character outside ASCII.
\<close>

definition compare_digest :: "string \<Rightarrow> string \<Rightarrow> error + bool" where
  "compare_digest a b =
     (if list_all is_ascii a \<and> list_all is_ascii b then Inr (a = b)
      else Inl (TypeError ''comparing strings with non-ASCII characters is not supported''))"

subsection \<open>\<^verbatim>\<open>verify_mailgun_request\<close>\<close>

text \<open>
  The three \<^verbatim>\<open>ValueError\<close>s of the function, under the names the specification gives
  them.
\<close>

definition ReplayDetected :: error where
  "ReplayDetected = ValueError ''Mailgun token is identical to the previous one''"

definition Expired :: error where
  "Expired = ValueError ''Mailgun timestamp is older than 60 seconds''"

definition SignatureMismatch :: error where
  "SignatureMismatch = ValueError ''Computed signature does not match request signature''"

text \<open>
  The function reads and writes the global \<^verbatim>\<open>cached_mailgun_token\<close> (\<open>None\<close> at
  import): the model takes it as \<open>cached\<close> and returns its new value beside the
  outcome. \<open>hmac_sha256 key msg\<close> stands for
  \<^verbatim>\<open>hmac.new(key, msg, hashlib.sha256).digest()\<close>, \<open>mailgun_key\<close> for
  \<^verbatim>\<open>config['mailgun-key']\<close> and \<open>now\<close> for the reading of \<^verbatim>\<open>time.time()\<close>.
\<close>

definition computed_signature ::
  "(byte list \<Rightarrow> byte list \<Rightarrow> byte list) \<Rightarrow> string \<Rightarrow> string \<Rightarrow> string \<Rightarrow> string" where
  "computed_signature hmac_sha256 mailgun_key timestamp token =
     (let api_key = encode_utf8 mailgun_key;
          message = encode_utf8 (timestamp @ token)
      in hexdigest (hmac_sha256 api_key message))"

definition verify_mailgun_request ::
  "(byte list \<Rightarrow> byte list \<Rightarrow> byte list) \<Rightarrow> string \<Rightarrow> real \<Rightarrow> string option \<Rightarrow>
   string \<Rightarrow> string \<Rightarrow> string \<Rightarrow> (error + unit) \<times> string option" where
  "verify_mailgun_request hmac_sha256 mailgun_key now cached timestamp token signature =
     (if Some token = cached then (Inl ReplayDetected, cached)
      else
        let cached' = Some token in
        (case py_int timestamp of
           None \<Rightarrow> (Inl (InvalidLiteral timestamp), cached')
         | Some t \<Rightarrow>
             if too_large_for_float t then
               (Inl (OverflowError ''int too large to convert to float''), cached')
             else if now - of_int t > 60 then (Inl Expired, cached')
             else
               let computed = computed_signature hmac_sha256 mailgun_key timestamp token in
               (case compare_digest computed signature of
                  Inl e \<Rightarrow> (Inl e, cached')
                | Inr same \<Rightarrow>
                    if \<not> same then (Inl SignatureMismatch, cached')
                    else (Inr (), cached'))))"

text \<open>
  The model subtracts and compares exactly; the code does so in binary64. The two agree
  on the test \<^verbatim>\<open>time.time() - int(timestamp) > 60\<close> for every clock reading from 32 to
  \<open>2 ^ 52\<close> seconds after the epoch: such a reading is a multiple of \<open>2 ^ - 47\<close>, so
  that an exact difference above 60 is at least the float next to 60 and no rounding
  takes it down to 60, and an integer beyond \<open>2 ^ 53\<close> in magnitude, which the
  conversion may round, is too far from the reading for the rounding to matter. The
  theorems on the freshness check are stated for these readings, and for timestamps
  within the digit limit of \<^verbatim>\<open>int\<close>.
\<close>

definition clock_reading :: "real \<Rightarrow> bool" where
  "clock_reading now \<longleftrightarrow> 32 \<le> now \<and> now \<le> 2 ^ 52"

definition within_digit_limit :: "string \<Rightarrow> bool" where
  "within_digit_limit s \<longleftrightarrow> length s \<le> 4300"

text \<open>
  The theorems below hold for every function in the place of \<open>hmac_sha256\<close>. Closed
  examples need one that computes: \<open>example_mac\<close> returns the key followed by the
  message.
\<close>

definition example_mac :: "byte list \<Rightarrow> byte list \<Rightarrow> byte list" where
  "example_mac key msg = key @ msg"

section \<open>The image renditions\<close>

subsection \<open>Lists, rounding and images\<close>

text \<open>\<^verbatim>\<open>xs[i]\<close>: a negative index counts from the end, an index out of range raises.\<close>

definition subscript :: "'a list \<Rightarrow> int \<Rightarrow> error + 'a" where
  "subscript xs i =
     (if 0 \<le> i \<and> i < int (length xs) then Inr (xs ! nat i)
      else if - int (length xs) \<le> i \<and> i < 0 then Inr (xs ! nat (int (length xs) + i))
      else Inl IndexError)"

text \<open>\<^verbatim>\<open>round(x)\<close> of a float: the nearest integer, the even one of two at equal distance.\<close>

definition py_round :: "real \<Rightarrow> int" where
  "py_round x =
     (let f = \<lfloor>x\<rfloor>; d = x - of_int f
      in if d < 1 / 2 then f else if 1 / 2 < d then f + 1 else if even f then f else f + 1)"

text \<open>
  Of a \<^verbatim>\<open>PIL.Image\<close> the model keeps the size and, in \<open>turned\<close>, the sum modulo 360 of
  the angles it was rotated by (PIL turns counter-clockwise). The pixels are not
  modelled. \<^verbatim>\<open>rotate(angle, expand = True)\<close> is modelled on the multiples of 90 degrees,
  where the expanded canvas is the old one or the old one with its sides swapped; for
  any other angle the model has no canvas and says so. \<^verbatim>\<open>resize\<close> returns an image of
  the size asked for, and raises a \<^verbatim>\<open>ValueError\<close> when a side of that size is below 1.
\<close>

record image =
  width :: nat
  height :: nat
  turned :: int

definition rotate :: "int \<Rightarrow> image \<Rightarrow> error + image" where
  "rotate angle img =
     (let a = angle mod 360
      in if a = 0 then Inr img
         else if a = 180 then Inr (img\<lparr>turned := (turned img + a) mod 360\<rparr>)
         else if a = 90 \<or> a = 270 then
           Inr (img\<lparr>width := height img, height := width img,
                  turned := (turned img + a) mod 360\<rparr>)
         else Inl (NotModelled ''rotate by an angle that is no multiple of 90''))"

definition resize :: "image \<Rightarrow> int \<times> int \<Rightarrow> error + image" where
  "resize img new_size =
     (if fst new_size < 1 \<or> snd new_size < 1
      then Inl (ValueError ''height and width must be > 0'')
      else Inr (img\<lparr>width := nat (fst new_size), height := nat (snd new_size)\<rparr>))"

text \<open>
  \<^verbatim>\<open>[ img.resize(size, Image.LANCZOS) for size in new_sizes ]\<close>: the first size that
  raises ends the list comprehension.
\<close>

fun resize_each :: "image \<Rightarrow> (int \<times> int) list \<Rightarrow> error + image list" where
  "resize_each img [] = Inr []"
| "resize_each img (new_size # new_sizes) =
     (case resize img new_size of
        Inl e \<Rightarrow> Inl e
      | Inr r \<Rightarrow>
          (case resize_each img new_sizes of
             Inl e \<Rightarrow> Inl e
           | Inr rs \<Rightarrow> Inr (r # rs)))"

subsection \<open>\<^verbatim>\<open>resize_image\<close>\<close>

text \<open>
  The EXIF metadata is a dictionary from tag names to values; a value is an integer or
  something else (a string, a tuple, bytes).
\<close>

datatype exif_value = ExifInt int | ExifOther string

definition ORIENTATIONS :: "int option list" where
  "ORIENTATIONS =
     [None, None, None, Some (- 180), None, None, Some (- 90), None, Some (- 270)]"

text \<open>
  Lines 220 to 222: the look-up of the angle and the rotation. A value that is no integer
  cannot index a list.
\<close>

definition oriented :: "image \<Rightarrow> (string \<rightharpoonup> exif_value) \<Rightarrow> error + image" where
  "oriented img metadata =
     (case (case metadata ''Orientation'' of
              None \<Rightarrow> subscript ORIENTATIONS 0
            | Some (ExifInt i) \<Rightarrow> subscript ORIENTATIONS i
            | Some (ExifOther v) \<Rightarrow> Inl (TypeError ''list indices must be integers or slices''))
      of
        Inl e \<Rightarrow> Inl e
      | Inr degree_to_rotate \<Rightarrow>
          (case degree_to_rotate of
             None \<Rightarrow> Inr img
           | Some angle \<Rightarrow> rotate angle img))"

text \<open>
  Lines 224 to 228 follow. The division by a larger dimension of zero raises. The
  products are rounded as exact numbers; where a product is exactly half way between
  two integers the float product of the code may fall on either side of it.
\<close>

definition resize_image :: "image \<Rightarrow> (string \<rightharpoonup> exif_value) \<Rightarrow> error + image list" where
  "resize_image img metadata =
     (case oriented img metadata of
        Inl e \<Rightarrow> Inl e
      | Inr img' \<Rightarrow>
          let w = width img'; h = height img';
              larger_dimension = (if w > h then w else h)
          in if larger_dimension = 0 then Inl ZeroDivisionError
             else
               let scales = map (\<lambda>x. x / real larger_dimension) [320, 640, 960, 1280];
                   new_sizes = map (\<lambda>s. (py_round (real w * s), py_round (real h * s))) scales
               in resize_each img' new_sizes)"

text \<open>
  What the specification asks of the rendition \<open>r\<close> of a source for one target size: its
  larger side is the target, each side is within one half of the source's side scaled
  by target over larger side, and it is turned as the source is.
\<close>

definition rendition_of :: "image \<Rightarrow> nat \<Rightarrow> image \<Rightarrow> bool" where
  "rendition_of src target r \<longleftrightarrow>
     max (width r) (height r) = target
     \<and> \<bar>real (width r) - real (width src) * real target / real (max (width src) (height src))\<bar>
         \<le> 1 / 2
     \<and> \<bar>real (height r) - real (height src) * real target / real (max (width src) (height src))\<bar>
         \<le> 1 / 2
     \<and> turned r = turned src"

section \<open>The image tag\<close>

subsection \<open>\<^verbatim>\<open>create_img_tag\<close>\<close>

text \<open>
  \<^verbatim>\<open>'srcset="{0}, {1}, {2}, {3}" '.format(*srcset)\<close>: each field looks its argument up by
  position, which raises an \<^verbatim>\<open>IndexError\<close> when there are too few; arguments beyond the
  fourth are ignored.
\<close>

definition format_srcset :: "string list \<Rightarrow> error + string" where
  \<open>format_srcset args =
     (case subscript args 0 of
        Inl e \<Rightarrow> Inl e
      | Inr a0 \<Rightarrow>
          (case subscript args 1 of
             Inl e \<Rightarrow> Inl e
           | Inr a1 \<Rightarrow>
               (case subscript args 2 of
                  Inl e \<Rightarrow> Inl e
                | Inr a2 \<Rightarrow>
                    (case subscript args 3 of
                       Inl e \<Rightarrow> Inl e
                     | Inr a3 \<Rightarrow>
                         Inr (''srcset="'' @ a0 @ '', '' @ a1 @ '', '' @ a2 @ '', '' @ a3
                              @ ''" '')))))\<close>

text \<open>The summary is a string; it is truthy when it is not empty.\<close>

definition create_img_tag :: "int \<Rightarrow> int list \<Rightarrow> string \<Rightarrow> error + string" where
  \<open>create_img_tag oid widths summary =
     (let assets_url = ''{{ site.assets_url }}'' in
      case subscript widths 1 of
        Inl e \<Rightarrow> Inl e
      | Inr w1 \<Rightarrow>
          let src = assets_url @ ''/'' @ str_int oid @ ''-'' @ str_int w1 @ ''.jpg'';
              srcset = map (\<lambda>w. assets_url @ ''/'' @ str_int oid @ ''-'' @ str_int w
                                  @ ''.jpg '' @ str_int w @ ''w'') widths;
              img_tag = ''<img src="'' @ src @ ''" ''
          in case format_srcset srcset of
               Inl e \<Rightarrow> Inl e
             | Inr srcset_attribute \<Rightarrow>
                 Inr (img_tag @ srcset_attribute
                      @ ''sizes="(min-width: 700px) 50vw, calc(100vw - 2rem)" ''
                      @ (if summary \<noteq> [] then ''alt="{{ page.summary }}" '' else [])
                      @ ''/>''))\<close>

text \<open>
  The words of the specification: the second-smallest of the widths, the entry of one
  rendition in the responsive source set, and the entries joined by a comma and a
  space.
\<close>

definition second_smallest :: "int list \<Rightarrow> int" where
  "second_smallest widths = sort widths ! 1"

definition srcset_entry :: "int \<Rightarrow> int \<Rightarrow> string" where
  "srcset_entry oid w =
     ''{{ site.assets_url }}/'' @ str_int oid @ ''-'' @ str_int w @ ''.jpg '' @ str_int w @ ''w''"

fun join_comma :: "string list \<Rightarrow> string" where
  "join_comma [] = []"
| "join_comma [x] = x"
| "join_comma (x # y # ys) = x @ '', '' @ join_comma (y # ys)"

section \<open>The next post identifier\<close>

subsection \<open>\<^verbatim>\<open>get_new_oid\<close>\<close>

text \<open>
  \<^verbatim>\<open>s.split(sep)\<close> for a separator of one character: the pieces between the
  occurrences of the separator, at least one piece.
\<close>

fun str_split :: "char \<Rightarrow> string \<Rightarrow> string list" where
  "str_split sep [] = [[]]"
| "str_split sep (c # cs) =
     (if c = sep then [] # str_split sep cs
      else (case str_split sep cs of
              [] \<Rightarrow> [[c]]
            | piece # pieces \<Rightarrow> (c # piece) # pieces))"

text \<open>\<^verbatim>\<open>int(p.split('.')[0].split('-')[-1])\<close> for one file name.\<close>

definition oid_of_post :: "string \<Rightarrow> error + int" where
  "oid_of_post p =
     (case subscript (str_split CHR ''.'' p) 0 of
        Inl e \<Rightarrow> Inl e
      | Inr stem \<Rightarrow>
          (case subscript (str_split CHR ''-'' stem) (- 1) of
             Inl e \<Rightarrow> Inl e
           | Inr numeral_text \<Rightarrow>
               (case py_int numeral_text of
                  None \<Rightarrow> Inl (InvalidLiteral numeral_text)
                | Some n \<Rightarrow> Inr n)))"

text \<open>The list comprehension: the first file name that raises ends it.\<close>

fun oids_of_posts :: "string list \<Rightarrow> error + int list" where
  "oids_of_posts [] = Inr []"
| "oids_of_posts (p # ps) =
     (case oid_of_post p of
        Inl e \<Rightarrow> Inl e
      | Inr n \<Rightarrow>
          (case oids_of_posts ps of
             Inl e \<Rightarrow> Inl e
           | Inr ns \<Rightarrow> Inr (n # ns)))"

text \<open>
  \<open>posts\<close> is what \<^verbatim>\<open>listdir(rel('blog/_posts'))\<close> returns, the names of the files in the
  directory of the posts.
\<close>

definition get_new_oid :: "string list \<Rightarrow> error + int" where
  "get_new_oid posts =
     (case oids_of_posts posts of
        Inl e \<Rightarrow> Inl e
      | Inr oids \<Rightarrow>
          let sorted_oids = sort oids
          in (case subscript sorted_oids (- 1) of
                Inl e \<Rightarrow> Inl e
              | Inr largest \<Rightarrow> Inr (largest + 1)))"

text \<open>The words of the specification: a post file is named \<^verbatim>\<open>{date}-{identifier}.md\<close>.\<close>

definition post_name :: "string \<Rightarrow> nat \<Rightarrow> string" where
  "post_name date identifier = date @ ''-'' @ str_nat identifier @ ''.md''"

section \<open>The attachment\<close>

subsection \<open>JSON values\<close>

text \<open>
  \<^verbatim>\<open>json.loads\<close> is the library's; the model starts from the value it returns. An object
  is the list of its members, looked up by key.
\<close>

datatype json =
    JNull
  | JBool bool
  | JNumber real
  | JString string
  | JArray "json list"
  | JObject "(string \<times> json) list"

text \<open>\<^verbatim>\<open>value[0]\<close> and \<^verbatim>\<open>value[key]\<close> for a string key, on whatever was parsed.\<close>

definition first_item :: "json \<Rightarrow> error + json" where
  "first_item v =
     (case v of
        JArray items \<Rightarrow> subscript items 0
      | JString s \<Rightarrow> (case subscript s 0 of Inl e \<Rightarrow> Inl e | Inr c \<Rightarrow> Inr (JString [c]))
      | JObject members \<Rightarrow> Inl (KeyError ''0'')
      | _ \<Rightarrow> Inl (TypeError ''object is not subscriptable''))"

definition item :: "json \<Rightarrow> string \<Rightarrow> error + json" where
  "item v key =
     (case v of
        JObject members \<Rightarrow>
          (case map_of members key of None \<Rightarrow> Inl (KeyError key) | Some x \<Rightarrow> Inr x)
      | JArray items \<Rightarrow> Inl (TypeError ''list indices must be integers or slices, not str'')
      | JString s \<Rightarrow> Inl (TypeError ''string indices must be integers'')
      | _ \<Rightarrow> Inl (TypeError ''object is not subscriptable''))"

subsection \<open>\<^verbatim>\<open>download_attachments\<close>\<close>

text \<open>
  The two failures of the attachment check, under the names the specification gives
  them: the \<^verbatim>\<open>IndexError\<close> of \<^verbatim>\<open>[0]\<close> on an empty list, and the \<^verbatim>\<open>ValueError\<close> whose
  message quotes the content type.
\<close>

definition NoAttachment :: error where
  "NoAttachment = IndexError"

definition UnsupportedType :: "string \<Rightarrow> error" where
  "UnsupportedType content_type =
     ValueError (''Unsupported file type '' @ [CHR 0x27] @ content_type @ [CHR 0x27])"

text \<open>
  The function talks to the network and writes a file. \<open>http_get url\<close> stands for
  \<^verbatim>\<open>requests.get(url, auth = MAILGUN_AUTH, stream = True)\<close> followed by
  \<^verbatim>\<open>raise_for_status()\<close>: the body of the response, or what either of the two raises.
  \<open>open_wb path\<close> is what opening the path for writing raises, if anything. The state of
  the world that the function changes is the list of the URLs it has requested and the
  files it has written. A failure in the middle of the stream of chunks is not modelled.
\<close>

record io =
  http_get :: "string \<Rightarrow> error + string"
  open_wb :: "string \<Rightarrow> error option"

record world =
  requested :: "string list"
  files :: "string \<rightharpoonup> string"

text \<open>\<^verbatim>\<open>join(TEMP_PATH, name)\<close>: an absolute name replaces the directory.\<close>

definition TEMP_PATH :: string where
  "TEMP_PATH = ''/tmp''"

definition join :: "string \<Rightarrow> string \<Rightarrow> string" where
  "join directory name =
     (if prefix ''/'' name then name
      else if directory = [] \<or> last directory = CHR ''/'' then directory @ name
      else directory @ ''/'' @ name)"

definition download_attachments ::
  "io \<Rightarrow> world \<Rightarrow> json \<Rightarrow> (error + string \<times> string) \<times> world" where
  "download_attachments io w attachments =
     (case first_item attachments of
        Inl e \<Rightarrow> (Inl e, w)
      | Inr attachment \<Rightarrow>
     (case item attachment ''url'' of
        Inl e \<Rightarrow> (Inl e, w)
      | Inr url \<Rightarrow>
     (case item attachment ''name'' of
        Inl e \<Rightarrow> (Inl e, w)
      | Inr name \<Rightarrow>
     (case item attachment ''content-type'' of
        Inl e \<Rightarrow> (Inl e, w)
      | Inr (JString content_type) \<Rightarrow>
          if \<not> prefix ''image'' content_type then (Inl (UnsupportedType content_type), w)
          else
            (case name of
               JString file_name \<Rightarrow>
                 let save_path = join TEMP_PATH file_name in
                 (case url of
                    JString address \<Rightarrow>
                      let w' = w\<lparr>requested := requested w @ [address]\<rparr> in
                      (case http_get io address of
                         Inl e \<Rightarrow> (Inl e, w')
                       | Inr body \<Rightarrow>
                           (case open_wb io save_path of
                              Some e \<Rightarrow> (Inl e, w')
                            | None \<Rightarrow>
                                (Inr (save_path, content_type),
                                 w'\<lparr>files := (files w')(save_path \<mapsto> body)\<rparr>)))
                  | _ \<Rightarrow> (Inl (RequestException ''Invalid URL: No schema supplied''), w))
             | _ \<Rightarrow> (Inl (TypeError ''expected str, bytes or os.PathLike object''), w))
      | Inr _ \<Rightarrow> (Inl (AttributeError ''object has no attribute startswith''), w)))))"

text \<open>
  Closed examples need a network and a disk that compute: \<open>example_io\<close> serves one image
  and lets every file be written.
\<close>

definition example_io :: io where
  "example_io =
     \<lparr>http_get = (\<lambda>url. if url = ''http://download.attachment/successful-image.jpg''
                        then Inr ''JFIF'' else Inl (RequestException ''404 Client Error'')),
      open_wb = (\<lambda>path. None)\<rparr>"

definition untouched :: world where
  "untouched = \<lparr>requested = [], files = Map.empty\<rparr>"

section \<open>Properties of the built-ins\<close>

subsection \<open>Reading a decimal numeral back\<close>

lemma digit_char_digit: "d < 10 \<Longrightarrow> is_digit (digit_char d) \<and> digit_val (digit_char d) = d"
proof -
  assume "d < 10"
  then have "d \<in> {0, 1, 2, 3, 4, 5, 6, 7, 8, 9}"
    by auto
  then show ?thesis
    by (elim insertE emptyE) (simp_all add: digit_char_def is_digit_def digit_val_def)
qed

lemma str_nat_digits: "list_all is_digit (str_nat n)"
proof (induction n rule: str_nat.induct)
  case (1 n)
  show ?case
  proof (cases "n < 10")
    case True
    have "str_nat n = [digit_char n]"
      using True by (subst str_nat.simps) simp
    then show ?thesis
      using digit_char_digit [OF True] by simp
  next
    case False
    have m: "n mod 10 < 10"
      by simp
    have "str_nat n = str_nat (n div 10) @ [digit_char (n mod 10)]"
      using False by (subst str_nat.simps) simp
    then show ?thesis
      using 1 [OF False] digit_char_digit [OF m] by simp
  qed
qed

lemma str_nat_not_Nil: "str_nat n \<noteq> []"
  by (subst str_nat.simps) simp

lemma digits_from_append:
  "list_all is_digit xs \<Longrightarrow>
   digits_from acc (xs @ [c]) =
     (case digits_from acc xs of
        None \<Rightarrow> None
      | Some v \<Rightarrow> if is_digit c then Some (10 * v + digit_val c) else None)"
proof (induction xs arbitrary: acc)
  case Nil
  then show ?case
    by (simp add: is_digit_def)
next
  case (Cons x xs)
  then show ?case
    by simp
qed

lemma digits_from_str_nat:
  "list_all is_digit xs \<Longrightarrow> \<exists>v. digits_from acc xs = Some v"
  by (induction xs arbitrary: acc) simp_all

lemma digits_append:
  assumes "xs \<noteq> []" and "list_all is_digit xs" and "is_digit c"
  shows "digits (xs @ [c]) = map_option (\<lambda>v. 10 * v + digit_val c) (digits xs)"
proof -
  from assms(1) obtain x xs' where xs: "xs = x # xs'"
    by (cases xs) auto
  with assms(2) have x: "is_digit x" and xs': "list_all is_digit xs'"
    by simp_all
  from digits_from_str_nat [OF xs'] obtain v where "digits_from (digit_val x) xs' = Some v"
    by blast
  then show ?thesis
    using x assms(3) by (simp add: digits_def xs digits_from_append [OF xs'])
qed

lemma digits_str_nat: "digits (str_nat n) = Some n"
proof (induction n rule: str_nat.induct)
  case (1 n)
  show ?case
  proof (cases "n < 10")
    case True
    have "str_nat n = [digit_char n]"
      using True by (subst str_nat.simps) simp
    then show ?thesis
      using digit_char_digit [OF True] by (simp add: digits_def)
  next
    case False
    have m: "n mod 10 < 10"
      by simp
    have s: "str_nat n = str_nat (n div 10) @ [digit_char (n mod 10)]"
      using False by (subst str_nat.simps) simp
    have "digits (str_nat n) =
        map_option (\<lambda>v. 10 * v + digit_val (digit_char (n mod 10))) (digits (str_nat (n div 10)))"
      unfolding s
      using digit_char_digit [OF m]
      by (intro digits_append str_nat_not_Nil str_nat_digits) simp
    then show ?thesis
      using 1 [OF False] digit_char_digit [OF m] by simp
  qed
qed

lemma digit_not_space: "is_digit c \<Longrightarrow> \<not> is_space c"
  by (auto simp add: is_digit_def is_space_def Let_def)

lemma strip_digits:
  assumes "list_all is_digit s"
  shows "strip s = s"
proof -
  have keep: "dropWhile is_space t = t" if "list_all is_digit t" for t
    using that by (cases t) (simp_all add: digit_not_space)
  have "list_all is_digit (rev s)"
    using assms by (simp add: list_all_iff)
  then show ?thesis
    using assms by (simp add: strip_def keep)
qed

lemma digit_no_sign: "is_digit c \<Longrightarrow> c \<noteq> CHR ''-'' \<and> c \<noteq> CHR ''+'' \<and> c \<noteq> CHR ''.''"
  by (auto simp add: is_digit_def)

lemma py_int_str_nat: "py_int (str_nat n) = Some (int n)"
proof -
  obtain c cs where s: "str_nat n = c # cs"
    using str_nat_not_Nil [of n] by (cases "str_nat n") auto
  with str_nat_digits [of n] have "is_digit c"
    by simp
  then have "c \<noteq> CHR ''-''" and "c \<noteq> CHR ''+''"
    using digit_no_sign by blast+
  moreover have "strip (str_nat n) = c # cs"
    using strip_digits [OF str_nat_digits, of n] unfolding s .
  moreover have "digits (c # cs) = Some n"
    using digits_str_nat [of n] s by simp
  ultimately show ?thesis
    by (simp add: py_int_def)
qed

lemma no_sep_in_str_nat: "CHR ''-'' \<notin> set (str_nat n)" "CHR ''.'' \<notin> set (str_nat n)"
  using str_nat_digits [of n] digit_no_sign by (auto simp add: list_all_iff)

lemma strip_unchanged:
  assumes "s \<noteq> []" and "\<not> is_space (hd s)" and "\<not> is_space (last s)"
  shows "strip s = s"
proof -
  have keep: "dropWhile is_space t = t" if "t \<noteq> []" and "\<not> is_space (hd t)" for t
    using that by (cases t) simp_all
  have "rev s \<noteq> []" and "\<not> is_space (hd (rev s))"
    using assms by (simp_all add: hd_rev)
  then have "dropWhile is_space (rev s) = rev s"
    by (rule keep)
  then show ?thesis
    using assms by (simp add: strip_def keep)
qed

lemma py_int_minus_str_nat: "py_int (CHR ''-'' # str_nat n) = Some (- int n)"
proof -
  have "last (CHR ''-'' # str_nat n) = last (str_nat n)"
    by (simp add: str_nat_not_Nil)
  moreover have "is_digit (last (str_nat n))"
    using str_nat_digits [of n] str_nat_not_Nil [of n] by (simp add: list_all_iff)
  ultimately have "\<not> is_space (last (CHR ''-'' # str_nat n))"
    by (simp add: digit_not_space)
  moreover have "\<not> is_space (CHR ''-'')"
    by (simp add: is_space_def)
  ultimately have "strip (CHR ''-'' # str_nat n) = CHR ''-'' # str_nat n"
    by (intro strip_unchanged) simp_all
  then show ?thesis
    by (simp add: py_int_def digits_str_nat)
qed

lemma py_int_str_int: "py_int (str_int i) = Some i"
  by (simp add: str_int_def py_int_minus_str_nat py_int_str_nat)

section \<open>Properties of \<^verbatim>\<open>verify_mailgun_request\<close>\<close>

subsection \<open>The computed signature is ASCII\<close>

lemma hex_char_ascii: "d < 16 \<Longrightarrow> is_ascii (hex_char d)"
proof -
  assume d: "d < 16"
  have "list_all is_ascii ''0123456789abcdef''"
    by (simp add: is_ascii_def)
  with d show ?thesis
    unfolding hex_char_def by (simp only: list_all_length) simp
qed

lemma hex_byte_ascii: "list_all is_ascii (hex_byte b)"
proof -
  have "unat b < 256"
    using unsigned_less [of b] by simp
  then have "unat b div 16 < 16" and "unat b mod 16 < 16"
    by simp_all
  then show ?thesis
    by (simp add: hex_byte_def hex_char_ascii)
qed

lemma hexdigest_ascii: "list_all is_ascii (hexdigest bs)"
  by (induction bs) (simp_all add: hexdigest_def hex_byte_ascii)

lemma computed_signature_ascii:
  "list_all is_ascii (computed_signature hmac_sha256 mailgun_key timestamp token)"
  by (simp add: computed_signature_def Let_def hexdigest_ascii)

subsection \<open>One lemma for each exit of the function\<close>

lemma errors_distinct:
  "ReplayDetected \<noteq> Expired" "ReplayDetected \<noteq> SignatureMismatch"
  "Expired \<noteq> SignatureMismatch" "Expired \<noteq> ReplayDetected"
  "SignatureMismatch \<noteq> ReplayDetected" "SignatureMismatch \<noteq> Expired"
  "ReplayDetected \<noteq> InvalidLiteral s" "ReplayDetected \<noteq> TypeError m"
  "Expired \<noteq> InvalidLiteral s" "Expired \<noteq> TypeError m"
  "SignatureMismatch \<noteq> InvalidLiteral s" "SignatureMismatch \<noteq> TypeError m"
  "InvalidLiteral s \<noteq> ReplayDetected" "TypeError m \<noteq> ReplayDetected"
  "InvalidLiteral s \<noteq> Expired" "TypeError m \<noteq> Expired"
  "InvalidLiteral s \<noteq> SignatureMismatch" "TypeError m \<noteq> SignatureMismatch"
  "OverflowError m \<noteq> ReplayDetected" "ReplayDetected \<noteq> OverflowError m"
  "OverflowError m \<noteq> Expired" "Expired \<noteq> OverflowError m"
  "OverflowError m \<noteq> SignatureMismatch" "SignatureMismatch \<noteq> OverflowError m"
  by (simp_all add: ReplayDetected_def Expired_def SignatureMismatch_def)

lemma verify_replay:
  "verify_mailgun_request hmac_sha256 mailgun_key now (Some token) timestamp token signature =
     (Inl ReplayDetected, Some token)"
  by (simp add: verify_mailgun_request_def)

lemma verify_stores_token:
  "Some token \<noteq> cached \<Longrightarrow>
   snd (verify_mailgun_request hmac_sha256 mailgun_key now cached timestamp token signature) =
     Some token"
  by (simp add: verify_mailgun_request_def Let_def split: option.splits sum.splits)

lemma verify_invalid_literal:
  "Some token \<noteq> cached \<Longrightarrow> py_int timestamp = None \<Longrightarrow>
   fst (verify_mailgun_request hmac_sha256 mailgun_key now cached timestamp token signature) =
     Inl (InvalidLiteral timestamp)"
  by (simp add: verify_mailgun_request_def)

lemma verify_overflow:
  "Some token \<noteq> cached \<Longrightarrow> py_int timestamp = Some t \<Longrightarrow> too_large_for_float t \<Longrightarrow>
   fst (verify_mailgun_request hmac_sha256 mailgun_key now cached timestamp token signature) =
     Inl (OverflowError ''int too large to convert to float'')"
  by (simp add: verify_mailgun_request_def)

lemma verify_expired:
  "Some token \<noteq> cached \<Longrightarrow> py_int timestamp = Some t \<Longrightarrow> \<not> too_large_for_float t \<Longrightarrow>
   now - of_int t > 60 \<Longrightarrow>
   fst (verify_mailgun_request hmac_sha256 mailgun_key now cached timestamp token signature) =
     Inl Expired"
  by (simp add: verify_mailgun_request_def)

lemma verify_fresh:
  "Some token \<noteq> cached \<Longrightarrow> py_int timestamp = Some t \<Longrightarrow> \<not> too_large_for_float t \<Longrightarrow>
   now - of_int t \<le> 60 \<Longrightarrow>
   fst (verify_mailgun_request hmac_sha256 mailgun_key now cached timestamp token signature) =
     (case compare_digest (computed_signature hmac_sha256 mailgun_key timestamp token) signature of
        Inl e \<Rightarrow> Inl e
      | Inr same \<Rightarrow> if same then Inr () else Inl SignatureMismatch)"
  by (simp add: verify_mailgun_request_def Let_def split: sum.splits)

lemma compare_digest_cases:
  "compare_digest (computed_signature hmac_sha256 mailgun_key timestamp token) signature =
     (if list_all is_ascii signature
      then Inr (computed_signature hmac_sha256 mailgun_key timestamp token = signature)
      else Inl (TypeError ''comparing strings with non-ASCII characters is not supported''))"
  by (simp add: compare_digest_def computed_signature_ascii)

subsection \<open>The inputs of the closed instances\<close>

lemma py_int_example: "py_int ''1501718219'' = Some 1501718219"
  by (simp add: py_int_def strip_def is_space_def digits_def is_digit_def digit_val_def)

lemma timestamp_example:
  "within_digit_limit ''1501718219''" "\<not> too_large_for_float 1501718219"
  by (simp_all add: within_digit_limit_def too_large_for_float_def)

lemma clock_example:
  "clock_reading 1501718220" "clock_reading 1501718221" "clock_reading 1501718279"
  "clock_reading 1501718280" "clock_reading (3003436559 / 2)"
  by (simp_all add: clock_reading_def)

lemma computed_signature_example:
  "computed_signature example_mac ''key'' ''1501718219'' ''beefc0ffeef00dc001'' =
     ''6b657931353031373138323139626565666330666665656630306463303031''"
  by (simp add: computed_signature_def example_mac_def encode_utf8_def encode_char_def
      hexdigest_def hex_byte_def hex_char_def)

text \<open>
  A timestamp of 402 characters: a minus sign, the digit 1 and 400 zeros, which
  \<^verbatim>\<open>int\<close> reads as the negative of the 400th power of ten.
\<close>

lemma str_nat_power_of_ten: "str_nat (10 ^ k) = CHR ''1'' # replicate k (CHR ''0'')"
proof (induction k)
  case 0
  show ?case
    by (simp add: str_nat.simps digit_char_def)
next
  case (Suc k)
  have "\<not> (10 :: nat) ^ Suc k < 10"
    by simp
  then have "str_nat (10 ^ Suc k) =
      str_nat (10 ^ Suc k div 10) @ [digit_char (10 ^ Suc k mod 10)]"
    by (subst str_nat.simps) simp
  also have "\<dots> = str_nat (10 ^ k) @ [CHR ''0'']"
    by (simp add: digit_char_def)
  also have "\<dots> = CHR ''1'' # replicate (Suc k) (CHR ''0'')"
    by (simp add: Suc replicate_append_same)
  finally show ?case .
qed

lemma py_int_huge:
  "py_int (CHR ''-'' # CHR ''1'' # replicate 400 (CHR ''0'')) = Some (- (10 ^ 400))"
proof -
  have "py_int (CHR ''-'' # CHR ''1'' # replicate 400 (CHR ''0'')) = Some (- int (10 ^ 400))"
    by (rule py_int_minus_str_nat [of "10 ^ 400", unfolded str_nat_power_of_ten])
  then show ?thesis
    by simp
qed

lemma huge_example:
  "within_digit_limit (CHR ''-'' # CHR ''1'' # replicate 400 (CHR ''0''))"
  "too_large_for_float (- (10 ^ 400))"
  "(1501718220 :: real) - of_int (- (10 ^ 400)) > 60"
  by (simp_all add: within_digit_limit_def too_large_for_float_def)

subsection \<open>Replay protection\<close>

text \<open>
  Claim C1. A valid request is one whose token is not the stored one, whose timestamp
  is a text of at most 4300 characters that \<^verbatim>\<open>int\<close> parses to an integer \<open>t\<close> that
  converts to a float, with \<open>t\<close> at most 60 seconds behind the clock, and whose
  signature is the hexadecimal HMAC-SHA256, under the configured key, of the timestamp
  followed by the token. At a clock reading between 32 and \<open>2\<^sup>5\<^sup>2\<close> seconds such a
  request is accepted, and the token is stored. Every later call with the same token,
  made right after it, fails with \<open>ReplayDetected\<close> and leaves the stored token as it
  is, whatever the clock, the timestamp and the signature of that call are.
\<close>

theorem verify_succeeds_once:
  assumes "Some token \<noteq> cached"
    and "within_digit_limit timestamp"
    and "py_int timestamp = Some t"
    and "\<not> too_large_for_float t"
    and "clock_reading now"
    and "now - of_int t \<le> 60"
    and "signature = computed_signature hmac_sha256 mailgun_key timestamp token"
  shows "verify_mailgun_request hmac_sha256 mailgun_key now cached timestamp token signature =
           (Inr (), Some token)
         \<and> (\<forall>now' timestamp' signature'.
               verify_mailgun_request hmac_sha256 mailgun_key now' (Some token)
                 timestamp' token signature' = (Inl ReplayDetected, Some token))"
proof
  have "fst (verify_mailgun_request hmac_sha256 mailgun_key now cached timestamp token signature)
          = Inr ()"
    using assms(1,3,4,6,7)
    by (simp add: verify_fresh compare_digest_cases computed_signature_ascii)
  moreover have
    "snd (verify_mailgun_request hmac_sha256 mailgun_key now cached timestamp token signature)
       = Some token"
    using assms(1) by (rule verify_stores_token)
  ultimately show
    "verify_mailgun_request hmac_sha256 mailgun_key now cached timestamp token signature =
       (Inr (), Some token)"
    by (simp add: prod_eq_iff)
next
  show "\<forall>now' timestamp' signature'.
          verify_mailgun_request hmac_sha256 mailgun_key now' (Some token)
            timestamp' token signature' = (Inl ReplayDetected, Some token)"
    by (simp add: verify_replay)
qed

text \<open>
  An instance of C1: at clock reading 1501718220 a request stamped 1501718219 is
  accepted, and its repetition one second later is a replay.
\<close>

theorem verify_succeeds_once_witness:
  "Some ''beefc0ffeef00dc001'' \<noteq> (None :: string option)
   \<and> within_digit_limit ''1501718219''
   \<and> py_int ''1501718219'' = Some 1501718219
   \<and> \<not> too_large_for_float 1501718219
   \<and> clock_reading 1501718220
   \<and> (1501718220 :: real) - of_int 1501718219 \<le> 60
   \<and> verify_mailgun_request example_mac ''key'' 1501718220 None ''1501718219''
        ''beefc0ffeef00dc001''
        ''6b657931353031373138323139626565666330666665656630306463303031'' =
      (Inr (), Some ''beefc0ffeef00dc001'')
   \<and> verify_mailgun_request example_mac ''key'' 1501718221 (Some ''beefc0ffeef00dc001'')
        ''1501718219'' ''beefc0ffeef00dc001''
        ''6b657931353031373138323139626565666330666665656630306463303031'' =
      (Inl ReplayDetected, Some ''beefc0ffeef00dc001'')"
proof -
  have fresh: "(1501718220 :: real) - of_int 1501718219 \<le> 60"
    by simp
  have "Some ''beefc0ffeef00dc001'' \<noteq> (None :: string option)"
    by simp
  from verify_succeeds_once [OF this timestamp_example(1) py_int_example timestamp_example(2)
      clock_example(1) fresh computed_signature_example [symmetric]]
  show ?thesis
    using py_int_example timestamp_example clock_example(1) by simp
qed

subsection \<open>The order of the checks and the stored token\<close>

text \<open>
  Claim C2. The checks run in the order replay, freshness, signature, and the stored
  token is overwritten before the freshness check:
  \<^item> a token equal to the stored one fails with \<open>ReplayDetected\<close> and leaves the
    store alone, whatever the timestamp and the signature are;
  \<^item> any other token is stored, whatever the call then returns or raises;
  \<^item> with such a token, a timestamp more than 60 seconds old fails with \<open>Expired\<close>,
    whatever the signature is, and the token is stored all the same (the timestamp
    being a text of at most 4300 characters that \<^verbatim>\<open>int\<close> parses to an integer that
    converts to a float, the clock reading between 32 and \<open>2\<^sup>5\<^sup>2\<close> seconds);
  \<^item> \<open>SignatureMismatch\<close> is raised only after both other checks have passed, and
    the token is stored then too (at such a clock reading);
  \<^item> the stored token is left equal to its prior value exactly when the call fails
    with \<open>ReplayDetected\<close>.
\<close>

theorem verify_check_order:
  "(Some token = cached \<longrightarrow>
      verify_mailgun_request hmac_sha256 mailgun_key now cached timestamp token signature =
        (Inl ReplayDetected, cached))
   \<and> (Some token \<noteq> cached \<longrightarrow>
      snd (verify_mailgun_request hmac_sha256 mailgun_key now cached timestamp token signature) =
        Some token)
   \<and> (\<forall>t. Some token \<noteq> cached \<and> within_digit_limit timestamp \<and> py_int timestamp = Some t
         \<and> \<not> too_large_for_float t \<and> clock_reading now \<and> now - of_int t > 60 \<longrightarrow>
      verify_mailgun_request hmac_sha256 mailgun_key now cached timestamp token signature =
        (Inl Expired, Some token))
   \<and> (clock_reading now
       \<and> fst (verify_mailgun_request hmac_sha256 mailgun_key now cached timestamp token
             signature) = Inl SignatureMismatch \<longrightarrow>
      Some token \<noteq> cached
      \<and> (\<exists>t. py_int timestamp = Some t \<and> \<not> too_large_for_float t \<and> now - of_int t \<le> 60)
      \<and> snd (verify_mailgun_request hmac_sha256 mailgun_key now cached timestamp token signature) =
        Some token)
   \<and> (snd (verify_mailgun_request hmac_sha256 mailgun_key now cached timestamp token signature) =
        cached \<longleftrightarrow>
      fst (verify_mailgun_request hmac_sha256 mailgun_key now cached timestamp token signature) =
        Inl ReplayDetected)"
  (is "?replay \<and> ?store \<and> ?expired \<and> ?mismatch \<and> ?only")
proof (intro conjI)
  show ?replay
    by (simp add: verify_mailgun_request_def)
  show ?store
    by (simp add: verify_stores_token)
  show ?expired
    by (simp add: prod_eq_iff verify_expired verify_stores_token)
  show ?mismatch
  proof
    assume "clock_reading now
      \<and> fst (verify_mailgun_request hmac_sha256 mailgun_key now cached timestamp token
        signature) = Inl SignatureMismatch"
    then have m: "fst (verify_mailgun_request hmac_sha256 mailgun_key now cached timestamp token
      signature) = Inl SignatureMismatch"
      by (rule conjunct2)
    have new: "Some token \<noteq> cached"
    proof
      assume "Some token = cached"
      then have "fst (verify_mailgun_request hmac_sha256 mailgun_key now cached timestamp token
        signature) = Inl ReplayDetected"
        by (simp add: verify_mailgun_request_def)
      with m show False
        by (simp add: errors_distinct)
    qed
    have "\<exists>t. py_int timestamp = Some t \<and> \<not> too_large_for_float t \<and> now - of_int t \<le> 60"
    proof (cases "py_int timestamp")
      case None
      with new m show ?thesis
        by (simp add: verify_invalid_literal errors_distinct)
    next
      case (Some t)
      show ?thesis
      proof (cases "too_large_for_float t")
        case True
        with new Some m show ?thesis
          by (simp add: verify_overflow errors_distinct)
      next
        case small: False
        show ?thesis
        proof (cases "now - of_int t > 60")
          case True
          with new Some small m show ?thesis
            by (simp add: verify_expired errors_distinct)
        next
          case False
          with Some small show ?thesis
            by simp
        qed
      qed
    qed
    with new show "Some token \<noteq> cached
      \<and> (\<exists>t. py_int timestamp = Some t \<and> \<not> too_large_for_float t \<and> now - of_int t \<le> 60)
      \<and> snd (verify_mailgun_request hmac_sha256 mailgun_key now cached timestamp token signature)
          = Some token"
      by (simp add: verify_stores_token)
  qed
  show ?only
  proof (cases "Some token = cached")
    case True
    then show ?thesis
      by (simp add: verify_mailgun_request_def)
  next
    case False
    then have "snd (verify_mailgun_request hmac_sha256 mailgun_key now cached timestamp token
      signature) \<noteq> cached"
      by (simp add: verify_stores_token)
    moreover from False have "fst (verify_mailgun_request hmac_sha256 mailgun_key now cached
      timestamp token signature) \<noteq> Inl ReplayDetected"
      by (simp add: verify_mailgun_request_def Let_def compare_digest_def errors_distinct
          split: option.splits)
    ultimately show ?thesis
      by simp
  qed
qed

text \<open>The definitions a closed instance of the function unfolds.\<close>

lemmas verify_eval =
  verify_mailgun_request_def computed_signature_def example_mac_def encode_utf8_def
  encode_char_def hexdigest_def hex_byte_def hex_char_def compare_digest_def is_ascii_def
  py_int_def strip_def is_space_def digits_def is_digit_def digit_val_def
  too_large_for_float_def clock_reading_def within_digit_limit_def
  ReplayDetected_def Expired_def SignatureMismatch_def

text \<open>
  Instances of C2 with the stored token \<open>c0ffee\<close> (a replay) and \<open>beef\<close>: a stale
  timestamp, a wrong signature and a timestamp that is no number all leave \<open>c0ffee\<close>
  in the store.
\<close>

theorem verify_check_order_witness:
  "verify_mailgun_request example_mac ''key'' 1501718220 (Some ''c0ffee'')
       ''1501718219'' ''c0ffee'' ''0bad'' = (Inl ReplayDetected, Some ''c0ffee'')
   \<and> within_digit_limit ''1501718219''
   \<and> py_int ''1501718219'' = Some 1501718219
   \<and> \<not> too_large_for_float 1501718219
   \<and> clock_reading 1501718280
   \<and> (1501718280 :: real) - of_int 1501718219 > 60
   \<and> verify_mailgun_request example_mac ''key'' 1501718280 (Some ''beef'')
       ''1501718219'' ''c0ffee'' ''0bad'' = (Inl Expired, Some ''c0ffee'')
   \<and> clock_reading 1501718220
   \<and> verify_mailgun_request example_mac ''key'' 1501718220 (Some ''beef'')
       ''1501718219'' ''c0ffee'' ''0bad'' = (Inl SignatureMismatch, Some ''c0ffee'')
   \<and> verify_mailgun_request example_mac ''key'' 1501718220 (Some ''beef'')
       ''yesterday'' ''c0ffee'' ''0bad'' = (Inl (InvalidLiteral ''yesterday''), Some ''c0ffee'')"
proof -
  have p: "py_int ''1501718219'' = Some 1501718219"
    by (rule py_int_example)
  have m: "fst (verify_mailgun_request example_mac ''key'' 1501718220 (Some ''beef'')
       ''1501718219'' ''c0ffee'' ''0bad'') = Inl SignatureMismatch"
    by (simp add: verify_eval)
  have i: "fst (verify_mailgun_request example_mac ''key'' 1501718220 (Some ''beef'')
       ''yesterday'' ''c0ffee'' ''0bad'') = Inl (InvalidLiteral ''yesterday'')"
    by (simp add: verify_eval)
  show ?thesis
    using p m i timestamp_example clock_example(1,4)
      verify_check_order [of "''c0ffee''" "Some ''c0ffee''" example_mac "''key''" 1501718220
        "''1501718219''" "''0bad''"]
      verify_check_order [of "''c0ffee''" "Some ''beef''" example_mac "''key''" 1501718280
        "''1501718219''" "''0bad''"]
      verify_check_order [of "''c0ffee''" "Some ''beef''" example_mac "''key''" 1501718220
        "''1501718219''" "''0bad''"]
      verify_check_order [of "''c0ffee''" "Some ''beef''" example_mac "''key''" 1501718220
        "''yesterday''" "''0bad''"]
    by (simp add: prod_eq_iff)
qed

subsection \<open>Freshness\<close>

text \<open>
  Claim C3, amended. For a token other than the stored one, a timestamp of at most 4300
  characters that \<^verbatim>\<open>int\<close> parses to \<open>t\<close> and a clock reading between 32 and \<open>2\<^sup>5\<^sup>2\<close>
  seconds:
  \<^item> when \<open>t\<close> converts to a float and \<open>now - t\<close> exceeds 60, the call fails with
    \<open>Expired\<close>, whatever the signature is;
  \<^item> when \<open>t\<close> converts to a float and \<open>now - t\<close> is at most 60, exactly 60 included,
    the call does not fail with \<open>Expired\<close> and its outcome is that of the signature
    comparison;
  \<^item> when \<open>t\<close> is too large to convert to a float, of magnitude
    \<open>2\<^sup>1\<^sup>0\<^sup>2\<^sup>4 - 2\<^sup>9\<^sup>7\<^sup>0\<close> or more, the subtraction raises an \<^verbatim>\<open>OverflowError\<close>,
    however old or new the timestamp is.
\<close>

theorem verify_freshness:
  assumes "Some token \<noteq> cached"
    and "within_digit_limit timestamp"
    and "py_int timestamp = Some t"
    and "clock_reading now"
  shows "(\<not> too_large_for_float t \<and> now - of_int t > 60 \<longrightarrow>
            fst (verify_mailgun_request hmac_sha256 mailgun_key now cached timestamp token
              signature) = Inl Expired)
         \<and> (\<not> too_large_for_float t \<and> now - of_int t \<le> 60 \<longrightarrow>
            fst (verify_mailgun_request hmac_sha256 mailgun_key now cached timestamp token
              signature) \<noteq> Inl Expired
            \<and> fst (verify_mailgun_request hmac_sha256 mailgun_key now cached timestamp token
              signature) =
              (case compare_digest
                      (computed_signature hmac_sha256 mailgun_key timestamp token) signature of
                 Inl e \<Rightarrow> Inl e
               | Inr same \<Rightarrow> if same then Inr () else Inl SignatureMismatch))
         \<and> (too_large_for_float t \<longrightarrow>
            fst (verify_mailgun_request hmac_sha256 mailgun_key now cached timestamp token
              signature) = Inl (OverflowError ''int too large to convert to float''))"
proof (intro conjI impI)
  assume "\<not> too_large_for_float t \<and> now - of_int t > 60"
  with assms(1,3) show "fst (verify_mailgun_request hmac_sha256 mailgun_key now cached timestamp
    token signature) = Inl Expired"
    by (simp add: verify_expired)
next
  assume fresh: "\<not> too_large_for_float t \<and> now - of_int t \<le> 60"
  with assms(1,3) show outcome:
    "fst (verify_mailgun_request hmac_sha256 mailgun_key now cached timestamp token signature) =
       (case compare_digest
               (computed_signature hmac_sha256 mailgun_key timestamp token) signature of
          Inl e \<Rightarrow> Inl e
        | Inr same \<Rightarrow> if same then Inr () else Inl SignatureMismatch)"
    by (simp add: verify_fresh)
  show "fst (verify_mailgun_request hmac_sha256 mailgun_key now cached timestamp token
    signature) \<noteq> Inl Expired"
    unfolding outcome
    by (simp add: compare_digest_cases errors_distinct)
next
  assume "too_large_for_float t"
  with assms(1,3) show "fst (verify_mailgun_request hmac_sha256 mailgun_key now cached timestamp
    token signature) = Inl (OverflowError ''int too large to convert to float'')"
    by (simp add: verify_overflow)
qed

text \<open>
  Instances of the amended C3 with a correctly signed request: accepted when exactly
  60 seconds old, expired when 60.5 seconds old; and a timestamp of a minus sign, the
  digit 1 and 400 zeros, which raises an \<^verbatim>\<open>OverflowError\<close>.
\<close>

theorem verify_freshness_witness:
  "Some ''c0ffee'' \<noteq> (None :: string option)
   \<and> within_digit_limit ''1501718219''
   \<and> py_int ''1501718219'' = Some 1501718219
   \<and> \<not> too_large_for_float 1501718219
   \<and> clock_reading 1501718279
   \<and> (1501718279 :: real) - of_int 1501718219 \<le> 60
   \<and> fst (verify_mailgun_request example_mac ''key'' 1501718279 None ''1501718219''
        ''c0ffee'' ''6b657931353031373138323139633066666565'') = Inr ()
   \<and> clock_reading (3003436559 / 2)
   \<and> (3003436559 / 2 :: real) - of_int 1501718219 > 60
   \<and> fst (verify_mailgun_request example_mac ''key'' (3003436559 / 2) None ''1501718219''
        ''c0ffee'' ''6b657931353031373138323139633066666565'')
        = Inl Expired
   \<and> within_digit_limit (CHR ''-'' # CHR ''1'' # replicate 400 (CHR ''0''))
   \<and> py_int (CHR ''-'' # CHR ''1'' # replicate 400 (CHR ''0'')) = Some (- (10 ^ 400))
   \<and> too_large_for_float (- (10 ^ 400))
   \<and> fst (verify_mailgun_request example_mac ''key'' 1501718279 None
        (CHR ''-'' # CHR ''1'' # replicate 400 (CHR ''0'')) ''c0ffee'' ''0bad'')
        = Inl (OverflowError ''int too large to convert to float'')"
proof -
  have n: "Some ''c0ffee'' \<noteq> (None :: string option)"
    by simp
  have c: "computed_signature example_mac ''key'' ''1501718219'' ''c0ffee'' =
      ''6b657931353031373138323139633066666565''"
    by (simp add: verify_eval)
  note a = verify_freshness [OF n timestamp_example(1) py_int_example clock_example(3),
      of example_mac "''key''" "''6b657931353031373138323139633066666565''"]
  note b = verify_freshness [OF n timestamp_example(1) py_int_example clock_example(5),
      of example_mac "''key''" "''6b657931353031373138323139633066666565''"]
  note h = verify_freshness [OF n huge_example(1) py_int_huge clock_example(3),
      of example_mac "''key''" "''0bad''"]
  have 1: "fst (verify_mailgun_request example_mac ''key'' 1501718279 None ''1501718219''
        ''c0ffee'' ''6b657931353031373138323139633066666565'') = Inr ()"
    using a timestamp_example(2) c by (simp add: compare_digest_def is_ascii_def)
  have 2: "fst (verify_mailgun_request example_mac ''key'' (3003436559 / 2) None ''1501718219''
        ''c0ffee'' ''6b657931353031373138323139633066666565'') = Inl Expired"
    using b timestamp_example(2) by simp
  have 3: "fst (verify_mailgun_request example_mac ''key'' 1501718279 None
        (CHR ''-'' # CHR ''1'' # replicate 400 (CHR ''0'')) ''c0ffee'' ''0bad'')
        = Inl (OverflowError ''int too large to convert to float'')"
    using h huge_example(2) by blast
  have 4: "(1501718279 :: real) - of_int 1501718219 \<le> 60"
    "(3003436559 / 2 :: real) - of_int 1501718219 > 60"
    by simp_all
  from n timestamp_example py_int_example clock_example(3,5) 4 1 2 huge_example(1,2)
    py_int_huge 3
  show ?thesis
    by (intro conjI)
qed

text \<open>
  Claim C3 as stated fails. The timestamp made of a minus sign, the digit 1 and 400
  zeros is parsed by \<^verbatim>\<open>int\<close>, the clock is more than 60 seconds past it, and the call
  does not fail with \<open>Expired\<close>: it raises an \<^verbatim>\<open>OverflowError\<close>.
\<close>

theorem verify_freshness_overflow_counterexample:
  "Some ''c0ffee'' \<noteq> (None :: string option)
   \<and> py_int (CHR ''-'' # CHR ''1'' # replicate 400 (CHR ''0'')) = Some (- (10 ^ 400))
   \<and> (1501718220 :: real) - of_int (- (10 ^ 400)) > 60
   \<and> fst (verify_mailgun_request example_mac ''key'' 1501718220 None
        (CHR ''-'' # CHR ''1'' # replicate 400 (CHR ''0'')) ''c0ffee'' ''0bad'')
        = Inl (OverflowError ''int too large to convert to float'')
   \<and> fst (verify_mailgun_request example_mac ''key'' 1501718220 None
        (CHR ''-'' # CHR ''1'' # replicate 400 (CHR ''0'')) ''c0ffee'' ''0bad'')
        \<noteq> Inl Expired"
proof -
  have n: "Some ''c0ffee'' \<noteq> (None :: string option)"
    by simp
  have o: "fst (verify_mailgun_request example_mac ''key'' 1501718220 None
        (CHR ''-'' # CHR ''1'' # replicate 400 (CHR ''0'')) ''c0ffee'' ''0bad'')
        = Inl (OverflowError ''int too large to convert to float'')"
    using n py_int_huge huge_example(2) by (rule verify_overflow)
  then have e: "fst (verify_mailgun_request example_mac ''key'' 1501718220 None
        (CHR ''-'' # CHR ''1'' # replicate 400 (CHR ''0'')) ''c0ffee'' ''0bad'')
        \<noteq> Inl Expired"
    by (simp add: errors_distinct)
  from n py_int_huge huge_example(3) o e show ?thesis
    by (intro conjI)
qed

subsection \<open>Authenticity\<close>

text \<open>
  Claim C4, amended. A call passes the replay and the freshness check when its token is
  not the stored one and its timestamp, a text of at most 4300 characters, is parsed by
  \<^verbatim>\<open>int\<close> to an integer \<open>t\<close> that converts to a float and is at most 60 seconds
  behind the clock, which reads between 32 and \<open>2\<^sup>5\<^sup>2\<close> seconds. For such a call:
  when the supplied signature has ASCII characters only, the call fails with
  \<open>SignatureMismatch\<close> if and only if the signature differs from the hexadecimal
  HMAC-SHA256, under the configured key, of the timestamp followed by the token, and it
  succeeds if and only if the two are equal; when the signature has a character outside
  ASCII, the comparison raises a \<^verbatim>\<open>TypeError\<close>.
\<close>

theorem verify_signature_check:
  assumes "Some token \<noteq> cached"
    and "within_digit_limit timestamp"
    and "py_int timestamp = Some t"
    and "\<not> too_large_for_float t"
    and "clock_reading now"
    and "now - of_int t \<le> 60"
  shows "(list_all is_ascii signature \<longrightarrow>
            (fst (verify_mailgun_request hmac_sha256 mailgun_key now cached timestamp token
                signature) = Inl SignatureMismatch
              \<longleftrightarrow> signature \<noteq> computed_signature hmac_sha256 mailgun_key timestamp token)
            \<and> (fst (verify_mailgun_request hmac_sha256 mailgun_key now cached timestamp token
                signature) = Inr ()
              \<longleftrightarrow> signature = computed_signature hmac_sha256 mailgun_key timestamp token))
         \<and> (\<not> list_all is_ascii signature \<longrightarrow>
            fst (verify_mailgun_request hmac_sha256 mailgun_key now cached timestamp token
              signature) =
              Inl (TypeError ''comparing strings with non-ASCII characters is not supported''))"
  using assms(1,3,4,6)
  by (auto simp add: verify_fresh compare_digest_cases)

text \<open>
  Instances of the amended C4: a wrong ASCII signature, the right signature, and the
  signature made of the one character U+00FF.
\<close>

theorem verify_signature_check_witness:
  "Some ''c001c001c001'' \<noteq> (None :: string option)
   \<and> within_digit_limit ''1501718219''
   \<and> py_int ''1501718219'' = Some 1501718219
   \<and> \<not> too_large_for_float 1501718219
   \<and> clock_reading 1501718220
   \<and> (1501718220 :: real) - of_int 1501718219 \<le> 60
   \<and> list_all is_ascii ''this-test-is-not-gonna-work''
   \<and> fst (verify_mailgun_request example_mac ''key'' 1501718220 None ''1501718219''
        ''c001c001c001'' ''this-test-is-not-gonna-work'') = Inl SignatureMismatch
   \<and> fst (verify_mailgun_request example_mac ''key'' 1501718220 None ''1501718219''
        ''c001c001c001'' ''6b657931353031373138323139633030316330303163303031'')
        = Inr ()
   \<and> \<not> list_all is_ascii [CHR 0xFF]
   \<and> fst (verify_mailgun_request example_mac ''key'' 1501718220 None ''1501718219''
        ''c001c001c001'' [CHR 0xFF]) =
        Inl (TypeError ''comparing strings with non-ASCII characters is not supported'')"
proof -
  have n: "Some ''c001c001c001'' \<noteq> (None :: string option)"
    by simp
  have f: "(1501718220 :: real) - of_int 1501718219 \<le> 60"
    by simp
  have c: "computed_signature example_mac ''key'' ''1501718219'' ''c001c001c001'' =
      ''6b657931353031373138323139633030316330303163303031''"
    by (simp add: verify_eval)
  note v = verify_signature_check [OF n timestamp_example(1) py_int_example timestamp_example(2)
      clock_example(1) f]
  show ?thesis
    using v [of "''this-test-is-not-gonna-work''" example_mac "''key''"]
      v [of "''6b657931353031373138323139633030316330303163303031''" example_mac "''key''"]
      v [of "[CHR 0xFF]" example_mac "''key''"]
      py_int_example timestamp_example clock_example(1) c
    by (simp add: is_ascii_def)
qed

text \<open>
  Claim C4 as stated fails: the signature U+00FF differs from the computed one, the
  replay and the freshness check pass, and the call does not fail with
  \<open>SignatureMismatch\<close>.
\<close>

theorem verify_signature_mismatch_counterexample:
  "Some ''c001c001c001'' \<noteq> (None :: string option)
   \<and> within_digit_limit ''1501718219''
   \<and> py_int ''1501718219'' = Some 1501718219
   \<and> \<not> too_large_for_float 1501718219
   \<and> clock_reading 1501718220
   \<and> (1501718220 :: real) - of_int 1501718219 \<le> 60
   \<and> [CHR 0xFF] \<noteq> computed_signature example_mac ''key'' ''1501718219'' ''c001c001c001''
   \<and> fst (verify_mailgun_request example_mac ''key'' 1501718220 None ''1501718219''
        ''c001c001c001'' [CHR 0xFF]) \<noteq> Inl SignatureMismatch"
  by (simp add: verify_eval)

section \<open>Properties of \<^verbatim>\<open>resize_image\<close>\<close>

text \<open>The definitions a closed instance of the function unfolds.\<close>

lemmas resize_eval =
  resize_image_def oriented_def subscript_def ORIENTATIONS_def rotate_def resize_def
  py_round_def

subsection \<open>Rounding\<close>

lemma py_round_near: "\<bar>of_int (py_round x) - x\<bar> \<le> 1 / 2"
  unfolding py_round_def Let_def by (auto; linarith)

lemma py_round_of_nat: "py_round (real n) = int n"
  by (simp add: py_round_def)

lemma py_round_bounds:
  assumes "0 \<le> x" and "x \<le> real t"
  shows "0 \<le> py_round x" and "py_round x \<le> int t"
proof -
  have near: "\<bar>of_int (py_round x) - x\<bar> \<le> 1 / 2"
    by (rule py_round_near)
  from near assms(1) have "- 1 < (of_int (py_round x) :: real)"
    by linarith
  then show "0 \<le> py_round x"
    by linarith
  from near assms(2) have "(of_int (py_round x) :: real) < real t + 1"
    by linarith
  then have "(of_int (py_round x) :: real) < of_int (int t + 1)"
    by simp
  then have "py_round x < int t + 1"
    by (simp only: of_int_less_iff)
  then show "py_round x \<le> int t"
    by simp
qed

lemma scaled_side:
  assumes "w \<le> L" and "0 < L"
  shows "0 \<le> real w * (real t / real L)" and "real w * (real t / real L) \<le> real t"
proof -
  show "0 \<le> real w * (real t / real L)"
    by simp
  have "real w * real t \<le> real L * real t"
    using assms(1) by (simp add: mult_right_mono)
  then show "real w * (real t / real L) \<le> real t"
    using assms(2) by (simp add: field_simps)
qed

text \<open>
  A side of at least \<open>m\<close> pixels, scaled to a target of at least 320 in an image whose
  larger side is below \<open>640 m\<close>, is more than one half, and so rounds to 1 or more.
\<close>

lemma rounded_side_positive:
  assumes "0 < L" and "L < 640 * m" and "m \<le> w" and "320 \<le> t"
  shows "1 \<le> py_round (real w * (real t / real L))"
proof -
  let ?x = "real w * (real t / real L)"
  have Lpos: "0 < real L"
    using assms(1) by simp
  have "real L < real (640 * m)"
    using assms(2) by (simp only: of_nat_less_iff)
  then have 1: "real L < 640 * real m"
    by simp
  have "real m \<le> real w" and "320 \<le> real t"
    using assms(3,4) by simp_all
  then have "320 * real m \<le> real t * real w"
    by (intro mult_mono) simp_all
  then have 2: "320 * real m \<le> real w * real t"
    by (simp only: mult.commute)
  from 1 2 have "real L < 2 * (real w * real t)"
    by linarith
  then have "real L * (1 / 2) < real w * real t"
    by simp
  then have "1 / 2 < real w * real t / real L"
    using Lpos by (simp only: pos_less_divide_eq mult.commute)
  then have "1 / 2 < ?x"
    by simp
  with py_round_near [of ?x] have "0 < (of_int (py_round ?x) :: real)"
    by linarith
  then have "0 < py_round ?x"
    by (simp only: of_int_0_less_iff)
  then show ?thesis
    by linarith
qed

lemma resize_rendition:
  assumes small: "max (width src) (height src) < 640 * min (width src) (height src)"
    and L: "L = (if width src > height src then width src else height src)"
    and t: "320 \<le> t"
  shows "\<exists>r. resize src (py_round (real (width src) * (real t / real L)),
                         py_round (real (height src) * (real t / real L))) = Inr r
             \<and> rendition_of src t r"
proof -
  let ?a = "py_round (real (width src) * (real t / real L))"
  let ?b = "py_round (real (height src) * (real t / real L))"
  have Lmax: "L = max (width src) (height src)"
    using L by (simp add: max_def)
  have Lpos: "0 < L"
    using small Lmax by (cases L; simp)
  have wL: "width src \<le> L" and hL: "height src \<le> L"
    using Lmax by simp_all
  have a: "1 \<le> ?a" "?a \<le> int t"
    using rounded_side_positive [OF Lpos, of "min (width src) (height src)" "width src" t]
      py_round_bounds(2) [OF scaled_side [OF wL Lpos, of t]] small Lmax t
    by simp_all
  have b: "1 \<le> ?b" "?b \<le> int t"
    using rounded_side_positive [OF Lpos, of "min (width src) (height src)" "height src" t]
      py_round_bounds(2) [OF scaled_side [OF hL Lpos, of t]] small Lmax t
    by simp_all
  have one: "?a = int t \<or> ?b = int t"
  proof (cases "width src = L")
    case True
    with Lpos have "real (width src) * (real t / real L) = real t"
      by simp
    then show ?thesis
      by (simp add: py_round_of_nat)
  next
    case False
    with Lmax have "height src = L"
      by (simp add: max_def split: if_splits)
    with Lpos have "real (height src) * (real t / real L) = real t"
      by simp
    then show ?thesis
      by (simp add: py_round_of_nat)
  qed
  have m: "max (nat ?a) (nat ?b) = t"
    using a b one by (auto simp add: max_def)
  have na: "real (nat ?a) = of_int ?a" and nb: "real (nat ?b) = of_int ?b"
    using a(1) b(1) by simp_all
  have da: "\<bar>real (nat ?a) - real (width src) * real t / real L\<bar> \<le> 1 / 2"
    unfolding na using py_round_near [of "real (width src) * (real t / real L)"] by simp
  have db: "\<bar>real (nat ?b) - real (height src) * real t / real L\<bar> \<le> 1 / 2"
    unfolding nb using py_round_near [of "real (height src) * (real t / real L)"] by simp
  have "resize src (?a, ?b) = Inr (src\<lparr>width := nat ?a, height := nat ?b\<rparr>)"
    using a(1) b(1) by (simp add: resize_def)
  moreover have "rendition_of src t (src\<lparr>width := nat ?a, height := nat ?b\<rparr>)"
    unfolding rendition_of_def
    using m da db Lmax by simp
  ultimately show ?thesis
    by simp
qed

lemma resize_image_scaled:
  assumes "oriented img metadata = Inr img'"
    and "0 < max (width img') (height img')"
  shows "resize_image img metadata =
     resize_each img' (map (\<lambda>t.
            (py_round (real (width img') * (real t
                / real (if width img' > height img' then width img' else height img'))),
             py_round (real (height img') * (real t
                / real (if width img' > height img' then width img' else height img')))))
          [320, 640, 960, 1280 :: nat])"
  using assms by (simp add: resize_image_def Let_def max_def split: if_splits)

lemma resize_each_four:
  assumes "resize img s1 = Inr r1" and "resize img s2 = Inr r2"
    and "resize img s3 = Inr r3" and "resize img s4 = Inr r4"
  shows "resize_each img [s1, s2, s3, s4] = Inr [r1, r2, r3, r4]"
  using assms by simp

lemma resize_each_error: "resize_each img sizes = Inl e \<Longrightarrow> \<exists>m. e = ValueError m"
  by (induction sizes arbitrary: e) (auto simp add: resize_def split: sum.splits if_splits)

subsection \<open>Orientation\<close>

lemma rotate_table:
  "rotate (- 180) img = Inr (img\<lparr>turned := (turned img - 180) mod 360\<rparr>)"
  "rotate (- 90) img =
     Inr (img\<lparr>width := height img, height := width img, turned := (turned img - 90) mod 360\<rparr>)"
  "rotate (- 270) img =
     Inr (img\<lparr>width := height img, height := width img, turned := (turned img - 270) mod 360\<rparr>)"
proof -
  have "(turned img + 180) mod 360 = (turned img - 180) mod 360"
    and "(turned img + 270) mod 360 = (turned img - 90) mod 360"
    and "(turned img + 90) mod 360 = (turned img - 270) mod 360"
    using mod_add_self2 [of "turned img - 180" 360] mod_add_self2 [of "turned img - 90" 360]
      mod_add_self2 [of "turned img - 270" 360]
    by (simp_all add: add.commute)
  then show
    "rotate (- 180) img = Inr (img\<lparr>turned := (turned img - 180) mod 360\<rparr>)"
    "rotate (- 90) img =
       Inr (img\<lparr>width := height img, height := width img, turned := (turned img - 90) mod 360\<rparr>)"
    "rotate (- 270) img =
       Inr (img\<lparr>width := height img, height := width img, turned := (turned img - 270) mod 360\<rparr>)"
    by (simp_all add: rotate_def)
qed

lemma oriented_value:
  "metadata ''Orientation'' = Some (ExifInt i) \<Longrightarrow>
   oriented img metadata =
     (case subscript ORIENTATIONS i of
        Inl e \<Rightarrow> Inl e
      | Inr None \<Rightarrow> Inr img
      | Inr (Some angle) \<Rightarrow> rotate angle img)"
  by (simp add: oriented_def split: sum.splits option.splits)

lemma oriented_absent:
  "metadata ''Orientation'' = None \<Longrightarrow> oriented img metadata = Inr img"
  by (simp add: oriented_def subscript_def ORIENTATIONS_def)

lemma subscript_table:
  "subscript ORIENTATIONS 0 = Inr None" "subscript ORIENTATIONS 1 = Inr None"
  "subscript ORIENTATIONS 2 = Inr None" "subscript ORIENTATIONS 3 = Inr (Some (- 180))"
  "subscript ORIENTATIONS 4 = Inr None" "subscript ORIENTATIONS 5 = Inr None"
  "subscript ORIENTATIONS 6 = Inr (Some (- 90))" "subscript ORIENTATIONS 7 = Inr None"
  "subscript ORIENTATIONS 8 = Inr (Some (- 270))"
  by (simp_all add: subscript_def ORIENTATIONS_def)

text \<open>A negative index counts from the end of the table of nine entries.\<close>

lemma subscript_table_negative:
  "subscript ORIENTATIONS (- 1) = Inr (Some (- 270))" "subscript ORIENTATIONS (- 2) = Inr None"
  "subscript ORIENTATIONS (- 3) = Inr (Some (- 90))" "subscript ORIENTATIONS (- 4) = Inr None"
  "subscript ORIENTATIONS (- 5) = Inr None" "subscript ORIENTATIONS (- 6) = Inr (Some (- 180))"
  "subscript ORIENTATIONS (- 7) = Inr None" "subscript ORIENTATIONS (- 8) = Inr None"
  "subscript ORIENTATIONS (- 9) = Inr None"
  by (simp_all add: subscript_def ORIENTATIONS_def)

lemma table_range:
  "- 9 \<le> (i :: int) \<Longrightarrow> i \<le> 8 \<Longrightarrow>
   i \<in> {- 9, - 8, - 7, - 6, - 5, - 4, - 3, - 2, - 1, 0, 1, 2, 3, 4, 5, 6, 7, 8}"
  by (simp only: insert_iff empty_iff) arith

lemma oriented_in_table:
  assumes "metadata ''Orientation'' = None
      \<or> (\<exists>i. metadata ''Orientation'' = Some (ExifInt i) \<and> - 9 \<le> i \<and> i \<le> 8)"
  shows "\<exists>img'. oriented img metadata = Inr img'
           \<and> max (width img') (height img') = max (width img) (height img)
           \<and> min (width img') (height img') = min (width img) (height img)"
  using assms
proof
  assume "metadata ''Orientation'' = None"
  then show ?thesis
    by (simp add: oriented_absent)
next
  assume "\<exists>i. metadata ''Orientation'' = Some (ExifInt i) \<and> - 9 \<le> i \<and> i \<le> 8"
  then obtain i where v: "metadata ''Orientation'' = Some (ExifInt i)"
    and "- 9 \<le> i" and "i \<le> 8"
    by blast
  then have "i \<in> {- 9, - 8, - 7, - 6, - 5, - 4, - 3, - 2, - 1, 0, 1, 2, 3, 4, 5, 6, 7, 8}"
    by (simp only: table_range)
  then show ?thesis
    unfolding oriented_value [of metadata i img, OF v]
    by (elim insertE emptyE)
      (simp_all add: subscript_table subscript_table_negative rotate_table
        max.commute min.commute)
qed

lemma oriented_beyond:
  "i < - 9 \<or> 8 < i \<Longrightarrow> metadata ''Orientation'' = Some (ExifInt i) \<Longrightarrow>
   oriented img metadata = Inl IndexError"
  by (auto simp add: oriented_value subscript_def ORIENTATIONS_def)

text \<open>
  Claim C5, amended, for an orientation tag that is absent or an integer. The values
  3 and -6 turn the image by 180 degrees, 6 and -3 by 90 and 8 and -1 by 270,
  clockwise, and for the last four the canvas has its sides swapped, so that nothing is
  cropped. An absent tag and the values 0, 1, 2, 4, 5, 7, -2, -4, -5, -7, -8 and -9
  leave the image as it is. With an absent tag or a value from -9 to 8, and an image
  whose larger side is less than 640 times its smaller side, \<^verbatim>\<open>resize_image\<close> returns
  four images. A value above 8 or below -9 is outside the table and raises an
  \<^verbatim>\<open>IndexError\<close>.
\<close>

theorem orientation_correction:
  "(metadata ''Orientation'' \<in> {Some (ExifInt 3), Some (ExifInt (- 6))} \<longrightarrow>
      oriented img metadata = Inr (img\<lparr>turned := (turned img - 180) mod 360\<rparr>))
   \<and> (metadata ''Orientation'' \<in> {Some (ExifInt 6), Some (ExifInt (- 3))} \<longrightarrow>
      oriented img metadata =
        Inr (img\<lparr>width := height img, height := width img,
               turned := (turned img - 90) mod 360\<rparr>))
   \<and> (metadata ''Orientation'' \<in> {Some (ExifInt 8), Some (ExifInt (- 1))} \<longrightarrow>
      oriented img metadata =
        Inr (img\<lparr>width := height img, height := width img,
               turned := (turned img - 270) mod 360\<rparr>))
   \<and> (metadata ''Orientation'' \<in>
        {None, Some (ExifInt 0), Some (ExifInt 1), Some (ExifInt 2), Some (ExifInt 4),
         Some (ExifInt 5), Some (ExifInt 7), Some (ExifInt (- 2)), Some (ExifInt (- 4)),
         Some (ExifInt (- 5)), Some (ExifInt (- 7)), Some (ExifInt (- 8)),
         Some (ExifInt (- 9))} \<longrightarrow>
      oriented img metadata = Inr img)
   \<and> ((metadata ''Orientation'' = None
        \<or> (\<exists>i. metadata ''Orientation'' = Some (ExifInt i) \<and> - 9 \<le> i \<and> i \<le> 8))
      \<and> max (width img) (height img) < 640 * min (width img) (height img) \<longrightarrow>
      (\<exists>rs. resize_image img metadata = Inr rs \<and> length rs = 4))
   \<and> (\<forall>i. (i < - 9 \<or> 8 < i) \<and> metadata ''Orientation'' = Some (ExifInt i) \<longrightarrow>
      resize_image img metadata = Inl IndexError)"
  (is "?three \<and> ?six \<and> ?eight \<and> ?others \<and> ?succeeds \<and> ?beyond")
proof (intro conjI)
  show ?three
  proof
    assume "metadata ''Orientation'' \<in> {Some (ExifInt 3), Some (ExifInt (- 6))}"
    then show "oriented img metadata = Inr (img\<lparr>turned := (turned img - 180) mod 360\<rparr>)"
      by (elim insertE emptyE)
        (simp_all add: oriented_value subscript_table subscript_table_negative rotate_table)
  qed
  show ?six
  proof
    assume "metadata ''Orientation'' \<in> {Some (ExifInt 6), Some (ExifInt (- 3))}"
    then show "oriented img metadata =
        Inr (img\<lparr>width := height img, height := width img,
               turned := (turned img - 90) mod 360\<rparr>)"
      by (elim insertE emptyE)
        (simp_all add: oriented_value subscript_table subscript_table_negative rotate_table)
  qed
  show ?eight
  proof
    assume "metadata ''Orientation'' \<in> {Some (ExifInt 8), Some (ExifInt (- 1))}"
    then show "oriented img metadata =
        Inr (img\<lparr>width := height img, height := width img,
               turned := (turned img - 270) mod 360\<rparr>)"
      by (elim insertE emptyE)
        (simp_all add: oriented_value subscript_table subscript_table_negative rotate_table)
  qed
  show ?others
  proof
    assume "metadata ''Orientation'' \<in>
        {None, Some (ExifInt 0), Some (ExifInt 1), Some (ExifInt 2), Some (ExifInt 4),
         Some (ExifInt 5), Some (ExifInt 7), Some (ExifInt (- 2)), Some (ExifInt (- 4)),
         Some (ExifInt (- 5)), Some (ExifInt (- 7)), Some (ExifInt (- 8)),
         Some (ExifInt (- 9))}"
    then show "oriented img metadata = Inr img"
      by (elim insertE emptyE)
        (simp_all add: oriented_absent oriented_value subscript_table subscript_table_negative)
  qed
  show ?succeeds
  proof
    assume a: "(metadata ''Orientation'' = None
        \<or> (\<exists>i. metadata ''Orientation'' = Some (ExifInt i) \<and> - 9 \<le> i \<and> i \<le> 8))
      \<and> max (width img) (height img) < 640 * min (width img) (height img)"
    then obtain img' where o: "oriented img metadata = Inr img'"
      and m: "max (width img') (height img') = max (width img) (height img)"
      and n: "min (width img') (height img') = min (width img) (height img)"
      using oriented_in_table [of metadata img] by blast
    from a m n have small: "max (width img') (height img')
        < 640 * min (width img') (height img')"
      by simp
    then have pos: "0 < max (width img') (height img')"
      by (cases "max (width img') (height img')"; simp)
    have "\<exists>r. resize img'
        (py_round (real (width img') * (real t
            / real (if width img' > height img' then width img' else height img'))),
         py_round (real (height img') * (real t
            / real (if width img' > height img' then width img' else height img')))) = Inr r"
      if "320 \<le> t" for t
      using resize_rendition [OF small refl that] by blast
    from this [of 320] this [of 640] this [of 960] this [of 1280]
    obtain r1 r2 r3 r4 where "resize_image img metadata = Inr [r1, r2, r3, r4]"
      unfolding resize_image_scaled [OF o pos] list.map
      by (auto dest: resize_each_four)
    then show "\<exists>rs. resize_image img metadata = Inr rs \<and> length rs = 4"
      by simp
  qed
  show ?beyond
  proof (intro allI impI)
    fix i
    assume "(i < - 9 \<or> 8 < i) \<and> metadata ''Orientation'' = Some (ExifInt i)"
    then have "oriented img metadata = Inl IndexError"
      using oriented_beyond by blast
    then show "resize_image img metadata = Inl IndexError"
      by (simp add: resize_image_def)
  qed
qed

text \<open>
  Instances of the amended C5 on a 1600 by 1200 image: the values 3, 6 and 8, the
  values -6, -3 and -1, an absent tag and the value -2, the four images returned,
  and the values 9 and -10.
\<close>

theorem orientation_correction_witness:
  "oriented \<lparr>width = 1600, height = 1200, turned = 0\<rparr> [''Orientation'' \<mapsto> ExifInt 3] =
     Inr \<lparr>width = 1600, height = 1200, turned = 180\<rparr>
   \<and> oriented \<lparr>width = 1600, height = 1200, turned = 0\<rparr> [''Orientation'' \<mapsto> ExifInt 6] =
     Inr \<lparr>width = 1200, height = 1600, turned = 270\<rparr>
   \<and> oriented \<lparr>width = 1600, height = 1200, turned = 0\<rparr> [''Orientation'' \<mapsto> ExifInt 8] =
     Inr \<lparr>width = 1200, height = 1600, turned = 90\<rparr>
   \<and> oriented \<lparr>width = 1600, height = 1200, turned = 0\<rparr> [''Orientation'' \<mapsto> ExifInt (- 6)] =
     Inr \<lparr>width = 1600, height = 1200, turned = 180\<rparr>
   \<and> oriented \<lparr>width = 1600, height = 1200, turned = 0\<rparr> [''Orientation'' \<mapsto> ExifInt (- 3)] =
     Inr \<lparr>width = 1200, height = 1600, turned = 270\<rparr>
   \<and> oriented \<lparr>width = 1600, height = 1200, turned = 0\<rparr> [''Orientation'' \<mapsto> ExifInt (- 1)] =
     Inr \<lparr>width = 1200, height = 1600, turned = 90\<rparr>
   \<and> oriented \<lparr>width = 1600, height = 1200, turned = 0\<rparr> Map.empty =
     Inr \<lparr>width = 1600, height = 1200, turned = 0\<rparr>
   \<and> oriented \<lparr>width = 1600, height = 1200, turned = 0\<rparr> [''Orientation'' \<mapsto> ExifInt (- 2)] =
     Inr \<lparr>width = 1600, height = 1200, turned = 0\<rparr>
   \<and> max (1600 :: nat) 1200 < 640 * min 1600 1200
   \<and> (\<exists>rs. resize_image \<lparr>width = 1600, height = 1200, turned = 0\<rparr> Map.empty = Inr rs
         \<and> length rs = 4)
   \<and> (\<exists>rs. resize_image \<lparr>width = 1600, height = 1200, turned = 0\<rparr>
           [''Orientation'' \<mapsto> ExifInt (- 3)] = Inr rs
         \<and> length rs = 4)
   \<and> resize_image \<lparr>width = 1600, height = 1200, turned = 0\<rparr> [''Orientation'' \<mapsto> ExifInt 9] =
     Inl IndexError
   \<and> resize_image \<lparr>width = 1600, height = 1200, turned = 0\<rparr>
       [''Orientation'' \<mapsto> ExifInt (- 10)] = Inl IndexError"
proof -
  let ?img = "\<lparr>width = 1600, height = 1200, turned = 0\<rparr>"
  note c = orientation_correction [of _ ?img]
  have 1: "oriented ?img [''Orientation'' \<mapsto> ExifInt 3] =
      Inr \<lparr>width = 1600, height = 1200, turned = 180\<rparr>"
    using c [of "[''Orientation'' \<mapsto> ExifInt 3]"] by simp
  have 2: "oriented ?img [''Orientation'' \<mapsto> ExifInt 6] =
      Inr \<lparr>width = 1200, height = 1600, turned = 270\<rparr>"
    using c [of "[''Orientation'' \<mapsto> ExifInt 6]"] by simp
  have 3: "oriented ?img [''Orientation'' \<mapsto> ExifInt 8] =
      Inr \<lparr>width = 1200, height = 1600, turned = 90\<rparr>"
    using c [of "[''Orientation'' \<mapsto> ExifInt 8]"] by simp
  have 4: "oriented ?img [''Orientation'' \<mapsto> ExifInt (- 6)] =
      Inr \<lparr>width = 1600, height = 1200, turned = 180\<rparr>"
    using c [of "[''Orientation'' \<mapsto> ExifInt (- 6)]"] by simp
  have 5: "oriented ?img [''Orientation'' \<mapsto> ExifInt (- 3)] =
      Inr \<lparr>width = 1200, height = 1600, turned = 270\<rparr>"
    using c [of "[''Orientation'' \<mapsto> ExifInt (- 3)]"] by simp
  have 6: "oriented ?img [''Orientation'' \<mapsto> ExifInt (- 1)] =
      Inr \<lparr>width = 1200, height = 1600, turned = 90\<rparr>"
    using c [of "[''Orientation'' \<mapsto> ExifInt (- 1)]"] by simp
  have 7: "oriented ?img Map.empty = Inr ?img"
    using c [of Map.empty] by simp
  have 8: "oriented ?img [''Orientation'' \<mapsto> ExifInt (- 2)] = Inr ?img"
    using c [of "[''Orientation'' \<mapsto> ExifInt (- 2)]"] by simp
  have 9: "max (1600 :: nat) 1200 < 640 * min 1600 1200"
    by simp
  have 10: "\<exists>rs. resize_image ?img Map.empty = Inr rs \<and> length rs = 4"
    using c [of Map.empty] by simp
  have 11: "\<exists>rs. resize_image ?img [''Orientation'' \<mapsto> ExifInt (- 3)] = Inr rs
      \<and> length rs = 4"
    using c [of "[''Orientation'' \<mapsto> ExifInt (- 3)]"] by simp
  have 12: "resize_image ?img [''Orientation'' \<mapsto> ExifInt 9] = Inl IndexError"
    using c [of "[''Orientation'' \<mapsto> ExifInt 9]"] by simp
  have 13: "resize_image ?img [''Orientation'' \<mapsto> ExifInt (- 10)] = Inl IndexError"
    using c [of "[''Orientation'' \<mapsto> ExifInt (- 10)]"] by simp
  from 1 2 3 4 5 6 7 8 9 10 11 12 13 show ?thesis
    by (intro conjI)
qed

text \<open>
  Claim C5 as stated fails. The value 9 is an orientation value other than 3, 6 and
  8, and with it \<^verbatim>\<open>resize_image\<close> raises instead of returning the image unrotated.
  The value -6 is another, and with it the image is turned by 180 degrees. And a
  source of 1 by 1000 pixels without orientation tag has its width rounded to 0, which
  \<^verbatim>\<open>resize\<close> refuses.
\<close>

theorem orientation_other_values_counterexample:
  "resize_image \<lparr>width = 1600, height = 1200, turned = 0\<rparr> [''Orientation'' \<mapsto> ExifInt 9] =
     Inl IndexError
   \<and> oriented \<lparr>width = 1600, height = 1200, turned = 0\<rparr> [''Orientation'' \<mapsto> ExifInt (- 6)] =
     Inr \<lparr>width = 1600, height = 1200, turned = 180\<rparr>
   \<and> resize_image \<lparr>width = 1, height = 1000, turned = 0\<rparr> Map.empty =
     Inl (ValueError ''height and width must be > 0'')"
  by (simp add: resize_eval)

subsection \<open>The four renditions\<close>

text \<open>
  Claim C6, amended. Whenever the orientation step returns an image and the larger
  side of that image is less than 640 times its smaller side, \<^verbatim>\<open>resize_image\<close> returns
  exactly four renditions, for the targets 320, 640, 960 and 1280 in this order: the
  larger side of each is its target and the other side is the proportional length
  rounded to a nearest integer.
\<close>

theorem resize_image_renditions:
  assumes "oriented img metadata = Inr img'"
    and "max (width img') (height img') < 640 * min (width img') (height img')"
  shows "\<exists>r1 r2 r3 r4.
           resize_image img metadata = Inr [r1, r2, r3, r4]
           \<and> rendition_of img' 320 r1 \<and> rendition_of img' 640 r2
           \<and> rendition_of img' 960 r3 \<and> rendition_of img' 1280 r4"
proof -
  from assms(2) have pos: "0 < max (width img') (height img')"
    by (cases "max (width img') (height img')"; simp)
  have r: "\<exists>r. resize img'
        (py_round (real (width img') * (real t
            / real (if width img' > height img' then width img' else height img'))),
         py_round (real (height img') * (real t
            / real (if width img' > height img' then width img' else height img')))) = Inr r
      \<and> rendition_of img' t r" if "320 \<le> t" for t
    using resize_rendition [OF assms(2) refl that] .
  from r [of 320] obtain r1 where r1: "resize img'
        (py_round (real (width img') * (real (320 :: nat)
            / real (if width img' > height img' then width img' else height img'))),
         py_round (real (height img') * (real (320 :: nat)
            / real (if width img' > height img' then width img' else height img')))) = Inr r1"
    and p1: "rendition_of img' 320 r1"
    by auto
  from r [of 640] obtain r2 where r2: "resize img'
        (py_round (real (width img') * (real (640 :: nat)
            / real (if width img' > height img' then width img' else height img'))),
         py_round (real (height img') * (real (640 :: nat)
            / real (if width img' > height img' then width img' else height img')))) = Inr r2"
    and p2: "rendition_of img' 640 r2"
    by auto
  from r [of 960] obtain r3 where r3: "resize img'
        (py_round (real (width img') * (real (960 :: nat)
            / real (if width img' > height img' then width img' else height img'))),
         py_round (real (height img') * (real (960 :: nat)
            / real (if width img' > height img' then width img' else height img')))) = Inr r3"
    and p3: "rendition_of img' 960 r3"
    by auto
  from r [of 1280] obtain r4 where r4: "resize img'
        (py_round (real (width img') * (real (1280 :: nat)
            / real (if width img' > height img' then width img' else height img'))),
         py_round (real (height img') * (real (1280 :: nat)
            / real (if width img' > height img' then width img' else height img')))) = Inr r4"
    and p4: "rendition_of img' 1280 r4"
    by auto
  have "resize_image img metadata = Inr [r1, r2, r3, r4]"
    unfolding resize_image_scaled [OF assms(1) pos] list.map
    using r1 r2 r3 r4 by (rule resize_each_four)
  with p1 p2 p3 p4 show ?thesis
    by blast
qed

text \<open>
  Instances of the amended C6, the two of the specification: a 1600 by 1200 source
  without orientation tag and with the orientation value 6.
\<close>

theorem resize_image_renditions_witness:
  "oriented \<lparr>width = 1600, height = 1200, turned = 0\<rparr> Map.empty =
     Inr \<lparr>width = 1600, height = 1200, turned = 0\<rparr>
   \<and> max (1600 :: nat) 1200 < 640 * min 1600 1200
   \<and> resize_image \<lparr>width = 1600, height = 1200, turned = 0\<rparr> Map.empty =
     Inr [\<lparr>width = 320, height = 240, turned = 0\<rparr>, \<lparr>width = 640, height = 480, turned = 0\<rparr>,
          \<lparr>width = 960, height = 720, turned = 0\<rparr>, \<lparr>width = 1280, height = 960, turned = 0\<rparr>]
   \<and> rendition_of \<lparr>width = 1600, height = 1200, turned = 0\<rparr> 320
        \<lparr>width = 320, height = 240, turned = 0\<rparr>
   \<and> oriented \<lparr>width = 1600, height = 1200, turned = 0\<rparr> [''Orientation'' \<mapsto> ExifInt 6] =
     Inr \<lparr>width = 1200, height = 1600, turned = 270\<rparr>
   \<and> max (1200 :: nat) 1600 < 640 * min 1200 1600
   \<and> resize_image \<lparr>width = 1600, height = 1200, turned = 0\<rparr> [''Orientation'' \<mapsto> ExifInt 6] =
     Inr [\<lparr>width = 240, height = 320, turned = 270\<rparr>, \<lparr>width = 480, height = 640, turned = 270\<rparr>,
          \<lparr>width = 720, height = 960, turned = 270\<rparr>, \<lparr>width = 960, height = 1280, turned = 270\<rparr>]
   \<and> rendition_of \<lparr>width = 1200, height = 1600, turned = 270\<rparr> 1280
        \<lparr>width = 960, height = 1280, turned = 270\<rparr>"
proof -
  let ?img = "\<lparr>width = 1600, height = 1200, turned = 0\<rparr>"
  let ?turned = "\<lparr>width = 1200, height = 1600, turned = 270\<rparr>"
  have o1: "oriented ?img Map.empty = Inr ?img"
    by (simp add: resize_eval)
  have o2: "oriented ?img [''Orientation'' \<mapsto> ExifInt 6] = Inr ?turned"
    by (simp add: resize_eval)
  have e1: "resize_image ?img Map.empty =
     Inr [\<lparr>width = 320, height = 240, turned = 0\<rparr>, \<lparr>width = 640, height = 480, turned = 0\<rparr>,
          \<lparr>width = 960, height = 720, turned = 0\<rparr>, \<lparr>width = 1280, height = 960, turned = 0\<rparr>]"
    by (simp add: resize_eval)
  have e2: "resize_image ?img [''Orientation'' \<mapsto> ExifInt 6] =
     Inr [\<lparr>width = 240, height = 320, turned = 270\<rparr>, \<lparr>width = 480, height = 640, turned = 270\<rparr>,
          \<lparr>width = 720, height = 960, turned = 270\<rparr>, \<lparr>width = 960, height = 1280, turned = 270\<rparr>]"
    by (simp add: resize_eval)
  have p1: "max (width ?img) (height ?img) < 640 * min (width ?img) (height ?img)"
    by simp
  have p2: "max (width ?turned) (height ?turned) < 640 * min (width ?turned) (height ?turned)"
    by simp
  have q: "max (1600 :: nat) 1200 < 640 * min 1600 1200"
    "max (1200 :: nat) 1600 < 640 * min 1200 1600"
    by simp_all
  from resize_image_renditions [OF o1 p1] e1
  have r1: "rendition_of ?img 320 \<lparr>width = 320, height = 240, turned = 0\<rparr>"
    by auto
  from resize_image_renditions [OF o2 p2] e2
  have r2: "rendition_of ?turned 1280 \<lparr>width = 960, height = 1280, turned = 270\<rparr>"
    by auto
  from o1 q(1) e1 r1 o2 q(2) e2 r2 show ?thesis
    by (intro conjI)
qed

text \<open>
  Claim C6 as stated fails: \<^verbatim>\<open>resize_image\<close> does not always produce four renditions.
  The 1600 by 1200 source with the orientation value 12 raises an \<^verbatim>\<open>IndexError\<close>, an
  image without pixels raises a \<^verbatim>\<open>ZeroDivisionError\<close>, and a source of 1000 by 1
  pixels, whose height rounds to 0, raises a \<^verbatim>\<open>ValueError\<close>.
\<close>

theorem resize_image_always_counterexample:
  "resize_image \<lparr>width = 1600, height = 1200, turned = 0\<rparr> [''Orientation'' \<mapsto> ExifInt 12] =
     Inl IndexError
   \<and> resize_image \<lparr>width = 0, height = 0, turned = 0\<rparr> Map.empty = Inl ZeroDivisionError
   \<and> resize_image \<lparr>width = 1000, height = 1, turned = 0\<rparr> Map.empty =
       Inl (ValueError ''height and width must be > 0'')"
  by (simp add: resize_eval)

text \<open>The branch of \<open>rotate\<close> that the model has no value for is never taken.\<close>

lemma resize_image_modelled: "resize_image img metadata \<noteq> Inl (NotModelled m)"
proof -
  have s: "subscript ORIENTATIONS i = Inr (Some a) \<Longrightarrow> a = - 180 \<or> a = - 90 \<or> a = - 270"
    for i a
    by (auto simp add: subscript_def ORIENTATIONS_def nth_Cons' split: if_splits)
  have o: "oriented img metadata \<noteq> Inl (NotModelled m)"
  proof (cases "metadata ''Orientation''")
    case None
    then show ?thesis
      by (simp add: oriented_absent)
  next
    case (Some v)
    show ?thesis
    proof (cases v)
      case (ExifInt i)
      with Some show ?thesis
        using s [of i]
        by (auto simp add: oriented_value rotate_table subscript_def
            split: sum.splits option.splits if_splits)
    next
      case (ExifOther x)
      with Some show ?thesis
        by (simp add: oriented_def)
    qed
  qed
  show ?thesis
  proof (cases "oriented img metadata")
    case (Inl e)
    with o show ?thesis
      by (simp add: resize_image_def)
  next
    case (Inr img')
    then have "resize_image img metadata = Inl ZeroDivisionError
        \<or> (\<exists>sizes. resize_image img metadata = resize_each img' sizes)"
      by (simp add: resize_image_def Let_def del: resize_each.simps) blast
    then show ?thesis
      using resize_each_error [of img' _ "NotModelled m"] by auto
  qed
qed

section \<open>Properties of \<^verbatim>\<open>create_img_tag\<close>\<close>

text \<open>The definitions a closed instance of the function unfolds.\<close>

lemmas tag_eval =
  create_img_tag_def format_srcset_def subscript_def str_int_def str_nat.simps digit_char_def

subsection \<open>The characters of a decimal numeral\<close>

lemma digit_char_set: "d < 10 \<Longrightarrow> digit_char d \<in> set ''0123456789''"
  unfolding digit_char_def by (rule nth_mem) simp

lemma str_nat_set: "set (str_nat n) \<subseteq> set ''0123456789''"
proof (induction n rule: str_nat.induct)
  case (1 n)
  show ?case
  proof (cases "n < 10")
    case True
    have "str_nat n = [digit_char n]"
      using True by (subst str_nat.simps) simp
    then show ?thesis
      using digit_char_set [OF True] by simp
  next
    case False
    have m: "n mod 10 < 10"
      by simp
    have "str_nat n = str_nat (n div 10) @ [digit_char (n mod 10)]"
      using False by (subst str_nat.simps) simp
    then show ?thesis
      using 1 [OF False] digit_char_set [OF m] by simp
  qed
qed

lemma no_y_nat: "CHR ''y'' \<notin> set (str_nat n)"
proof
  assume "CHR ''y'' \<in> set (str_nat n)"
  with str_nat_set [of n] have "CHR ''y'' \<in> set ''0123456789''"
    by (rule subsetD)
  then show False
    by simp
qed

lemma no_y_in_numeral: "CHR ''y'' \<notin> set (str_int i)"
  by (simp add: str_int_def no_y_nat)

subsection \<open>The tag of four widths\<close>

lemma create_img_tag_four:
  \<open>create_img_tag oid [a, b, c, d] summary =
     Inr (''<img src="{{ site.assets_url }}/'' @ str_int oid @ ''-'' @ str_int b @ ''.jpg" ''
          @ ''srcset="'' @ join_comma (map (srcset_entry oid) [a, b, c, d]) @ ''" ''
          @ ''sizes="(min-width: 700px) 50vw, calc(100vw - 2rem)" ''
          @ (if summary \<noteq> [] then ''alt="{{ page.summary }}" '' else [])
          @ ''/>'')\<close>
  by (simp add: create_img_tag_def format_srcset_def subscript_def srcset_entry_def)

lemma four_widths: "length (ws :: int list) = 4 \<Longrightarrow> \<exists>a b c d. ws = [a, b, c, d]"
  by (auto simp add: numeral_eq_Suc length_Suc_conv)

lemma fewer_widths:
  "length (ws :: int list) < 4 \<Longrightarrow>
   ws = [] \<or> (\<exists>a. ws = [a]) \<or> (\<exists>a b. ws = [a, b]) \<or> (\<exists>a b c. ws = [a, b, c])"
  by (auto simp add: numeral_eq_Suc less_Suc_eq length_Suc_conv)

lemma more_widths:
  "4 \<le> length (ws :: int list) \<Longrightarrow> \<exists>a b c d rest. ws = a # b # c # d # rest"
  by (auto simp add: numeral_eq_Suc Suc_le_length_iff)

lemma create_img_tag_short:
  "create_img_tag oid [] summary = Inl IndexError"
  "create_img_tag oid [a] summary = Inl IndexError"
  "create_img_tag oid [a, b] summary = Inl IndexError"
  "create_img_tag oid [a, b, c] summary = Inl IndexError"
  by (simp_all add: create_img_tag_def format_srcset_def subscript_def)

lemma create_img_tag_long:
  "create_img_tag oid (a # b # c # d # rest) summary = create_img_tag oid [a, b, c, d] summary"
  by (simp add: create_img_tag_def format_srcset_def subscript_def)

text \<open>
  Claim C7. For an identifier, a list of four widths in ascending order and a summary,
  \<^verbatim>\<open>create_img_tag\<close> returns a tag that starts with the default source, which names the
  file of the second-smallest width; that contains the source set with the entry of
  each of the four widths, in the order of the list, each followed by the width and
  the letter w; that contains the fixed \<^verbatim>\<open>sizes\<close> attribute; and that contains the
  \<^verbatim>\<open>alt\<close> attribute if and only if the summary is not empty.
\<close>

theorem create_img_tag_markup:
  assumes "length widths = 4" and "sorted widths"
  shows \<open>\<exists>tag. create_img_tag oid widths summary = Inr tag
     \<and> prefix (''<img src="{{ site.assets_url }}/'' @ str_int oid @ ''-''
               @ str_int (second_smallest widths) @ ''.jpg" '') tag
     \<and> sublist (''srcset="'' @ join_comma (map (srcset_entry oid) widths) @ ''" '') tag
     \<and> sublist ''sizes="(min-width: 700px) 50vw, calc(100vw - 2rem)" '' tag
     \<and> (sublist ''alt="{{ page.summary }}" '' tag \<longleftrightarrow> summary \<noteq> [])\<close>
proof -
  from assms(1) obtain a b c d where ws: "widths = [a, b, c, d]"
    using four_widths by blast
  from assms(2) have "sort widths = widths"
    by (rule sorted_sort_id)
  then have second: "second_smallest [a, b, c, d] = b"
    by (simp add: second_smallest_def ws)
  define p where \<open>p = ''<img src="{{ site.assets_url }}/'' @ str_int oid @ ''-''
    @ str_int (second_smallest widths) @ ''.jpg" ''\<close>
  define s where \<open>s = ''srcset="'' @ join_comma (map (srcset_entry oid) widths) @ ''" ''\<close>
  define z where \<open>z = ''sizes="(min-width: 700px) 50vw, calc(100vw - 2rem)" ''\<close>
  define alt where \<open>alt = ''alt="{{ page.summary }}" ''\<close>
  define al where "al = (if summary \<noteq> [] then alt else [])"
  define tag where \<open>tag = p @ s @ z @ al @ ''/>''\<close>
  have tag: "create_img_tag oid widths summary = Inr tag"
    unfolding tag_def p_def s_def z_def al_def alt_def second ws
    by (simp only: create_img_tag_four append_assoc)
  have "prefix p tag"
    unfolding tag_def by (rule prefixI) (rule refl)
  moreover have "sublist s tag"
    unfolding tag_def by (rule sublist_appendI)
  moreover have "sublist z tag"
    using sublist_appendI [of z "p @ s" "al @ ''/>''"] by (simp add: tag_def)
  moreover have "sublist alt tag \<longleftrightarrow> summary \<noteq> []"
  proof (cases "summary = []")
    case False
    then have "tag = (p @ s @ z) @ alt @ ''/>''"
      by (simp add: tag_def al_def)
    then have "sublist alt tag"
      by (simp only: sublist_appendI)
    with False show ?thesis
      by simp
  next
    case True
    have "CHR ''y'' \<notin> set tag"
      unfolding tag_def p_def s_def z_def al_def ws
      using True by (simp add: srcset_entry_def no_y_in_numeral)
    moreover have "CHR ''y'' \<in> set alt"
      by (simp add: alt_def)
    ultimately have "\<not> sublist alt tag"
      using set_mono_sublist [of alt tag] by blast
    with True show ?thesis
      by simp
  qed
  ultimately show ?thesis
    using tag unfolding p_def s_def z_def alt_def by blast
qed

text \<open>
  Instances of C7, the two of the repository's tests: identifier 777 with the widths
  300, 500, 700 and 900 and no summary, and identifier 888 with a summary.
\<close>

theorem create_img_tag_markup_witness:
  \<open>length [300, 500, 700, 900 :: int] = 4 \<and> sorted [300, 500, 700, 900 :: int]
   \<and> second_smallest [300, 500, 700, 900] = 500
   \<and> create_img_tag 777 [300, 500, 700, 900] '''' =
       Inr ''<img src="{{ site.assets_url }}/777-500.jpg" srcset="{{ site.assets_url }}/777-300.jpg 300w, {{ site.assets_url }}/777-500.jpg 500w, {{ site.assets_url }}/777-700.jpg 700w, {{ site.assets_url }}/777-900.jpg 900w" sizes="(min-width: 700px) 50vw, calc(100vw - 2rem)" />''
   \<and> (\<exists>tag. create_img_tag 777 [300, 500, 700, 900] '''' = Inr tag
     \<and> prefix (''<img src="{{ site.assets_url }}/'' @ str_int 777 @ ''-''
               @ str_int (second_smallest [300, 500, 700, 900]) @ ''.jpg" '') tag
     \<and> sublist (''srcset="'' @ join_comma (map (srcset_entry 777) [300, 500, 700, 900]) @ ''" '')
         tag
     \<and> sublist ''sizes="(min-width: 700px) 50vw, calc(100vw - 2rem)" '' tag
     \<and> (sublist ''alt="{{ page.summary }}" '' tag \<longleftrightarrow> '''' \<noteq> ([] :: string)))
   \<and> length [200, 400, 600, 800 :: int] = 4 \<and> sorted [200, 400, 600, 800 :: int]
   \<and> create_img_tag 888 [200, 400, 600, 800] ''Summary'' =
       Inr ''<img src="{{ site.assets_url }}/888-400.jpg" srcset="{{ site.assets_url }}/888-200.jpg 200w, {{ site.assets_url }}/888-400.jpg 400w, {{ site.assets_url }}/888-600.jpg 600w, {{ site.assets_url }}/888-800.jpg 800w" sizes="(min-width: 700px) 50vw, calc(100vw - 2rem)" alt="{{ page.summary }}" />''
   \<and> (\<exists>tag. create_img_tag 888 [200, 400, 600, 800] ''Summary'' = Inr tag
     \<and> prefix (''<img src="{{ site.assets_url }}/'' @ str_int 888 @ ''-''
               @ str_int (second_smallest [200, 400, 600, 800]) @ ''.jpg" '') tag
     \<and> sublist (''srcset="'' @ join_comma (map (srcset_entry 888) [200, 400, 600, 800]) @ ''" '')
         tag
     \<and> sublist ''sizes="(min-width: 700px) 50vw, calc(100vw - 2rem)" '' tag
     \<and> (sublist ''alt="{{ page.summary }}" '' tag \<longleftrightarrow> ''Summary'' \<noteq> []))\<close>
proof -
  have l1: "length [300, 500, 700, 900 :: int] = 4" and s1: "sorted [300, 500, 700, 900 :: int]"
    and l2: "length [200, 400, 600, 800 :: int] = 4" and s2: "sorted [200, 400, 600, 800 :: int]"
    by simp_all
  have m: "second_smallest [300, 500, 700, 900] = 500"
    using sorted_sort_id [OF s1] by (simp add: second_smallest_def)
  have e1: \<open>create_img_tag 777 [300, 500, 700, 900] '''' =
       Inr ''<img src="{{ site.assets_url }}/777-500.jpg" srcset="{{ site.assets_url }}/777-300.jpg 300w, {{ site.assets_url }}/777-500.jpg 500w, {{ site.assets_url }}/777-700.jpg 700w, {{ site.assets_url }}/777-900.jpg 900w" sizes="(min-width: 700px) 50vw, calc(100vw - 2rem)" />''\<close>
    by (simp add: tag_eval)
  have e2: \<open>create_img_tag 888 [200, 400, 600, 800] ''Summary'' =
       Inr ''<img src="{{ site.assets_url }}/888-400.jpg" srcset="{{ site.assets_url }}/888-200.jpg 200w, {{ site.assets_url }}/888-400.jpg 400w, {{ site.assets_url }}/888-600.jpg 600w, {{ site.assets_url }}/888-800.jpg 800w" sizes="(min-width: 700px) 50vw, calc(100vw - 2rem)" alt="{{ page.summary }}" />''\<close>
    by (simp add: tag_eval)
  note w1 = create_img_tag_markup [OF l1 s1, of 777 "''''"]
  note w2 = create_img_tag_markup [OF l2 s2, of 888 "''Summary''"]
  from l1 s1 m e1 w1 l2 s2 e2 w2 show ?thesis
    by (intro conjI)
qed

subsection \<open>Fewer or more than four widths\<close>

text \<open>
  Claim C10. With fewer than four widths \<^verbatim>\<open>create_img_tag\<close> raises an \<^verbatim>\<open>IndexError\<close>
  and returns no tag. With four or more it returns a tag: the default source names
  the second width, the responsive source set is made of the entries of the first four
  widths, in their order, and of nothing else, and the sizing rule and the \<^verbatim>\<open>alt\<close>
  attribute follow. It is the tag of the first four widths alone: what follows them
  does not appear in it.
\<close>

theorem create_img_tag_needs_four:
  \<open>(length widths < 4 \<longrightarrow> create_img_tag oid widths summary = Inl IndexError)
   \<and> (4 \<le> length widths \<longrightarrow>
        create_img_tag oid widths summary =
          Inr (''<img src="{{ site.assets_url }}/'' @ str_int oid @ ''-'' @ str_int (widths ! 1)
               @ ''.jpg" ''
               @ ''srcset="'' @ join_comma (map (srcset_entry oid) (take 4 widths)) @ ''" ''
               @ ''sizes="(min-width: 700px) 50vw, calc(100vw - 2rem)" ''
               @ (if summary \<noteq> [] then ''alt="{{ page.summary }}" '' else [])
               @ ''/>'')
        \<and> create_img_tag oid widths summary = create_img_tag oid (take 4 widths) summary)\<close>
proof (intro conjI impI)
  assume "length widths < 4"
  then consider "widths = []" | a where "widths = [a]" | a b where "widths = [a, b]"
    | a b c where "widths = [a, b, c]"
    using fewer_widths [of widths] by blast
  then show "create_img_tag oid widths summary = Inl IndexError"
    by cases (simp_all only: create_img_tag_short)
next
  assume "4 \<le> length widths"
  then obtain a b c d rest where ws: "widths = a # b # c # d # rest"
    using more_widths by blast
  have t: "take 4 widths = [a, b, c, d]"
    by (simp add: ws)
  have s: "widths ! 1 = b"
    by (simp add: ws)
  have first_four:
    "create_img_tag oid widths summary = create_img_tag oid [a, b, c, d] summary"
    unfolding ws by (rule create_img_tag_long)
  then show "create_img_tag oid widths summary = create_img_tag oid (take 4 widths) summary"
    unfolding t .
  from first_four show \<open>create_img_tag oid widths summary =
          Inr (''<img src="{{ site.assets_url }}/'' @ str_int oid @ ''-'' @ str_int (widths ! 1)
               @ ''.jpg" ''
               @ ''srcset="'' @ join_comma (map (srcset_entry oid) (take 4 widths)) @ ''" ''
               @ ''sizes="(min-width: 700px) 50vw, calc(100vw - 2rem)" ''
               @ (if summary \<noteq> [] then ''alt="{{ page.summary }}" '' else [])
               @ ''/>'')\<close>
    unfolding t s create_img_tag_four .
qed

text \<open>
  Instances of C10: one, two and three widths raise; with a fifth width, 1100, the tag
  names the width 500 as the default, lists 300, 500, 700 and 900, and is the tag of
  these four.
\<close>

theorem create_img_tag_needs_four_witness:
  \<open>length [300 :: int] < 4 \<and> create_img_tag 777 [300] ''Summary'' = Inl IndexError
   \<and> length [300, 500 :: int] < 4 \<and> create_img_tag 777 [300, 500] ''Summary'' = Inl IndexError
   \<and> length [300, 500, 700 :: int] < 4
   \<and> create_img_tag 777 [300, 500, 700] ''Summary'' = Inl IndexError
   \<and> 4 \<le> length [300, 500, 700, 900, 1100 :: int]
   \<and> create_img_tag 777 [300, 500, 700, 900, 1100] '''' =
       Inr ''<img src="{{ site.assets_url }}/777-500.jpg" srcset="{{ site.assets_url }}/777-300.jpg 300w, {{ site.assets_url }}/777-500.jpg 500w, {{ site.assets_url }}/777-700.jpg 700w, {{ site.assets_url }}/777-900.jpg 900w" sizes="(min-width: 700px) 50vw, calc(100vw - 2rem)" />''
   \<and> create_img_tag 777 [300, 500, 700, 900, 1100] '''' =
       create_img_tag 777 [300, 500, 700, 900] ''''\<close>
proof -
  have l1: "length [300 :: int] < 4" and l2: "length [300, 500 :: int] < 4"
    and l3: "length [300, 500, 700 :: int] < 4"
    and l5: "4 \<le> length [300, 500, 700, 900, 1100 :: int]"
    by simp_all
  have t: "take 4 [300, 500, 700, 900, 1100 :: int] = [300, 500, 700, 900]"
    by simp
  have r1: "create_img_tag 777 [300] ''Summary'' = Inl IndexError"
    by (rule create_img_tag_needs_four [THEN conjunct1, rule_format, OF l1])
  have r2: "create_img_tag 777 [300, 500] ''Summary'' = Inl IndexError"
    by (rule create_img_tag_needs_four [THEN conjunct1, rule_format, OF l2])
  have r3: "create_img_tag 777 [300, 500, 700] ''Summary'' = Inl IndexError"
    by (rule create_img_tag_needs_four [THEN conjunct1, rule_format, OF l3])
  have r5: "create_img_tag 777 [300, 500, 700, 900, 1100] '''' =
      create_img_tag 777 [300, 500, 700, 900] ''''"
    using create_img_tag_needs_four [THEN conjunct2, rule_format, OF l5, THEN conjunct2,
        of 777 "''''"]
    unfolding t .
  have c5: \<open>create_img_tag 777 [300, 500, 700, 900, 1100] '''' =
       Inr ''<img src="{{ site.assets_url }}/777-500.jpg" srcset="{{ site.assets_url }}/777-300.jpg 300w, {{ site.assets_url }}/777-500.jpg 500w, {{ site.assets_url }}/777-700.jpg 700w, {{ site.assets_url }}/777-900.jpg 900w" sizes="(min-width: 700px) 50vw, calc(100vw - 2rem)" />''\<close>
    using create_img_tag_needs_four [THEN conjunct2, rule_format, OF l5, THEN conjunct1,
        of 777 "''''"]
    unfolding t
    by (simp add: tag_eval)
  from l1 r1 l2 r2 l3 r3 l5 c5 r5 show ?thesis
    by (intro conjI)
qed

section \<open>Properties of \<^verbatim>\<open>get_new_oid\<close>\<close>

subsection \<open>Splitting\<close>

lemma str_split_length: "length (str_split sep s) = Suc (length (filter (\<lambda>c. c = sep) s))"
  by (induction s) (auto split: list.splits)

lemma str_split_not_Nil: "str_split sep s \<noteq> []"
  using str_split_length [of sep s] by auto

lemma str_split_no_sep: "sep \<notin> set s \<Longrightarrow> str_split sep s = [s]"
  by (induction s) auto

lemma str_split_first: "sep \<notin> set a \<Longrightarrow> str_split sep (a @ sep # b) = a # str_split sep b"
  by (induction a) auto

lemma str_split_last: "last (str_split sep (a @ sep # b)) = last (str_split sep b)"
proof (induction a)
  case Nil
  then show ?case
    by (simp add: str_split_not_Nil)
next
  case (Cons c a)
  have "2 \<le> length (str_split sep (a @ sep # b))"
    by (simp add: str_split_length)
  then obtain x y ys where "str_split sep (a @ sep # b) = x # y # ys"
    by (cases "str_split sep (a @ sep # b)"; cases "tl (str_split sep (a @ sep # b))") auto
  with Cons show ?case
    by (auto simp add: str_split_not_Nil)
qed

lemma subscript_first: "xs \<noteq> [] \<Longrightarrow> subscript xs 0 = Inr (hd xs)"
  by (cases xs) (simp_all add: subscript_def)

lemma subscript_last: "xs \<noteq> [] \<Longrightarrow> subscript xs (- 1) = Inr (last xs)"
proof -
  assume "xs \<noteq> []"
  then have "0 < length xs"
    by simp
  then have "nat (int (length xs) + - 1) = length xs - 1"
    by simp
  with \<open>xs \<noteq> []\<close> \<open>0 < length xs\<close> show ?thesis
    by (simp add: subscript_def last_conv_nth Suc_le_eq)
qed

lemma subscript_empty: "subscript [] i = Inl IndexError"
  by (simp add: subscript_def)

subsection \<open>One file name, and all of them\<close>

lemma oid_of_post_name:
  assumes "CHR ''.'' \<notin> set date"
  shows "oid_of_post (post_name date n) = Inr (int n)"
proof -
  let ?stem = "date @ ''-'' @ str_nat n"
  have "CHR ''.'' \<notin> set ?stem"
    using assms by (simp add: no_sep_in_str_nat)
  then have "str_split CHR ''.'' (?stem @ CHR ''.'' # ''md'') = ?stem # str_split CHR ''.'' ''md''"
    by (rule str_split_first)
  then have stem: "subscript (str_split CHR ''.'' (post_name date n)) 0 = Inr ?stem"
    by (simp add: post_name_def subscript_def)
  have "last (str_split CHR ''-'' (date @ CHR ''-'' # str_nat n)) =
      last (str_split CHR ''-'' (str_nat n))"
    by (rule str_split_last)
  then have "last (str_split CHR ''-'' ?stem) = str_nat n"
    by (simp add: str_split_no_sep no_sep_in_str_nat)
  then have "subscript (str_split CHR ''-'' ?stem) (- 1) = Inr (str_nat n)"
    using subscript_last [OF str_split_not_Nil, of "CHR ''-''" ?stem] by simp
  with stem show ?thesis
    by (simp add: oid_of_post_def py_int_str_nat)
qed

lemma oids_of_post_names:
  assumes "\<forall>(date, n) \<in> set entries. CHR ''.'' \<notin> set date"
  shows "oids_of_posts (map (\<lambda>(date, n). post_name date n) entries) =
     Inr (map (\<lambda>(date, n). int n) entries)"
  using assms by (induction entries) (auto simp add: oid_of_post_name)

lemma last_sort_Max:
  assumes "xs \<noteq> []"
  shows "last (sort xs) = Max (set (xs :: int list))"
proof -
  let ?ys = "sort xs"
  have ne: "?ys \<noteq> []"
    using assms by (metis length_sort length_0_conv)
  have "last ?ys \<in> set ?ys"
    using ne by (rule last_in_set)
  moreover have "\<forall>y \<in> set ?ys. y \<le> last ?ys"
  proof
    fix y
    assume "y \<in> set ?ys"
    then obtain i where i: "i < length ?ys" "?ys ! i = y"
      unfolding in_set_conv_nth by blast
    have "?ys ! i \<le> ?ys ! (length ?ys - 1)"
      using i(1) by (intro sorted_nth_mono) simp_all
    with i(2) ne show "y \<le> last ?ys"
      by (simp add: last_conv_nth)
  qed
  ultimately have "Max (set ?ys) = last ?ys"
    by (intro Max_eqI) simp_all
  then show ?thesis
    by simp
qed

subsection \<open>The next identifier\<close>

text \<open>
  Claim C9. For a listing that is not empty and holds files named
  \<^verbatim>\<open>{date}-{identifier}.md\<close>, with a date that has no dot and the identifier in decimal
  digits, the next identifier is one more than the largest identifier of the listing.
  For the empty listing the function raises an \<^verbatim>\<open>IndexError\<close>.
\<close>

theorem get_new_oid_next:
  "(entries \<noteq> [] \<and> (\<forall>(date, n) \<in> set entries. CHR ''.'' \<notin> set date) \<longrightarrow>
      get_new_oid (map (\<lambda>(date, n). post_name date n) entries) =
        Inr (int (Max (snd ` set entries)) + 1))
   \<and> get_new_oid [] = Inl IndexError"
proof (intro conjI impI)
  assume a: "entries \<noteq> [] \<and> (\<forall>(date, n) \<in> set entries. CHR ''.'' \<notin> set date)"
  let ?oids = "map (\<lambda>(date, n). int n) entries"
  have oids: "oids_of_posts (map (\<lambda>(date, n). post_name date n) entries) = Inr ?oids"
    using a by (intro oids_of_post_names) simp
  have ne: "?oids \<noteq> []"
    using a by simp
  then have "sort ?oids \<noteq> []"
    by (metis length_sort length_0_conv)
  then have "subscript (sort ?oids) (- 1) = Inr (last (sort ?oids))"
    by (rule subscript_last)
  also have "last (sort ?oids) = Max (set ?oids)"
    using ne by (rule last_sort_Max)
  also have "set ?oids = int ` snd ` set entries"
    by (force simp add: image_iff)
  also have "Max (int ` snd ` set entries) = int (Max (snd ` set entries))"
    using a by (intro mono_Max_commute [symmetric]) (auto simp add: mono_def)
  finally show "get_new_oid (map (\<lambda>(date, n). post_name date n) entries) =
      Inr (int (Max (snd ` set entries)) + 1)"
    by (simp add: get_new_oid_def oids)
next
  show "get_new_oid [] = Inl IndexError"
    by (simp add: get_new_oid_def subscript_empty)
qed

text \<open>
  An instance of C9, the one of the repository's test: the identifiers 0, 1 and 3 are
  followed by 4.
\<close>

theorem get_new_oid_next_witness:
  "[(''2012-05-15'', 0), (''2016-11-02'', 1), (''2017-01-16'', 3 :: nat)] \<noteq> []
   \<and> CHR ''.'' \<notin> set ''2012-05-15'' \<and> CHR ''.'' \<notin> set ''2016-11-02''
   \<and> CHR ''.'' \<notin> set ''2017-01-16''
   \<and> map (\<lambda>(date, n). post_name date n)
        [(''2012-05-15'', 0), (''2016-11-02'', 1), (''2017-01-16'', 3)] =
      [''2012-05-15-0.md'', ''2016-11-02-1.md'', ''2017-01-16-3.md'']
   \<and> get_new_oid [''2012-05-15-0.md'', ''2016-11-02-1.md'', ''2017-01-16-3.md''] = Inr 4
   \<and> get_new_oid [] = Inl IndexError"
proof -
  have names: "map (\<lambda>(date, n). post_name date n)
        [(''2012-05-15'', 0), (''2016-11-02'', 1), (''2017-01-16'', 3)] =
      [''2012-05-15-0.md'', ''2016-11-02-1.md'', ''2017-01-16-3.md'']"
    by (simp add: post_name_def str_nat.simps digit_char_def)
  have largest: "Max (snd ` set [(''2012-05-15'', 0), (''2016-11-02'', 1), (''2017-01-16'', 3 :: nat)])
      = 3"
    by simp
  show ?thesis
    using get_new_oid_next
      [of "[(''2012-05-15'', 0), (''2016-11-02'', 1), (''2017-01-16'', 3)]"]
    unfolding names largest by simp
qed

section \<open>Properties of \<^verbatim>\<open>download_attachments\<close>\<close>

text \<open>The definitions a closed instance of the function unfolds.\<close>

lemmas download_eval =
  download_attachments_def first_item_def item_def subscript_def join_def TEMP_PATH_def
  example_io_def untouched_def NoAttachment_def UnsupportedType_def Let_def

lemma download_first_only:
  "download_attachments io w (JArray (a # rest)) = download_attachments io w (JArray [a])"
  by (simp add: download_attachments_def first_item_def subscript_def)

lemma download_unsupported:
  assumes "map_of members ''url'' = Some url"
    and "map_of members ''name'' = Some name"
    and "map_of members ''content-type'' = Some (JString content_type)"
    and "\<not> prefix ''image'' content_type"
  shows "download_attachments io w (JArray [JObject members]) =
     (Inl (UnsupportedType content_type), w)"
  using assms by (simp add: download_attachments_def first_item_def item_def subscript_def)

lemma unsupported_message:
  "\<exists>message. UnsupportedType content_type = ValueError message \<and> sublist content_type message"
proof -
  have "sublist content_type (''Unsupported file type '' @ [CHR 0x27] @ content_type @ [CHR 0x27])"
    using sublist_appendI [of content_type "''Unsupported file type '' @ [CHR 0x27]" "[CHR 0x27]"]
    by simp
  then show ?thesis
    unfolding UnsupportedType_def by blast
qed

text \<open>
  Claim C8. The empty descriptor list fails with \<open>NoAttachment\<close>. Of a list that is not
  empty only the first entry counts. When the first entry has a URL, a name and a
  content type that does not begin with \<^verbatim>\<open>image\<close>, the function fails with
  \<open>UnsupportedType\<close>, whose message contains the content type. In both failures the
  world is left as it was: nothing has been requested and no file has been written.
\<close>

theorem download_attachments_checks:
  "download_attachments io w (JArray []) = (Inl NoAttachment, w)
   \<and> (\<forall>a rest. download_attachments io w (JArray (a # rest)) =
         download_attachments io w (JArray [a]))
   \<and> (\<forall>members rest url name content_type.
        map_of members ''url'' = Some url \<and> map_of members ''name'' = Some name
        \<and> map_of members ''content-type'' = Some (JString content_type)
        \<and> \<not> prefix ''image'' content_type \<longrightarrow>
        download_attachments io w (JArray (JObject members # rest)) =
          (Inl (UnsupportedType content_type), w)
        \<and> (\<exists>message. UnsupportedType content_type = ValueError message
              \<and> sublist content_type message))"
proof (intro conjI allI impI)
  show "download_attachments io w (JArray []) = (Inl NoAttachment, w)"
    by (simp add: download_attachments_def first_item_def subscript_def NoAttachment_def)
next
  fix a rest
  show "download_attachments io w (JArray (a # rest)) = download_attachments io w (JArray [a])"
    by (rule download_first_only)
next
  fix members rest url name content_type
  assume a: "map_of members ''url'' = Some url \<and> map_of members ''name'' = Some name
        \<and> map_of members ''content-type'' = Some (JString content_type)
        \<and> \<not> prefix ''image'' content_type"
  have "download_attachments io w (JArray (JObject members # rest)) =
      download_attachments io w (JArray [JObject members])"
    by (rule download_first_only)
  also have "\<dots> = (Inl (UnsupportedType content_type), w)"
    using a by (intro download_unsupported) simp_all
  finally show "download_attachments io w (JArray (JObject members # rest)) =
      (Inl (UnsupportedType content_type), w)" .
  show "\<exists>message. UnsupportedType content_type = ValueError message
      \<and> sublist content_type message"
    by (rule unsupported_message)
qed

text \<open>
  Instances of C8, the two of the repository's tests: the empty list, and a text file,
  here followed by an image that is never looked at.
\<close>

theorem download_attachments_checks_witness:
  "download_attachments example_io untouched (JArray []) = (Inl NoAttachment, untouched)
   \<and> NoAttachment = IndexError
   \<and> map_of [(''url'', JString ''http://download.attachment/bad-type.txt''),
             (''name'', JString ''bad-type.txt''),
             (''content-type'', JString ''text/plain'')] ''content-type'' =
       Some (JString ''text/plain'')
   \<and> \<not> prefix ''image'' ''text/plain''
   \<and> download_attachments example_io untouched
        (JArray [JObject [(''url'', JString ''http://download.attachment/bad-type.txt''),
                          (''name'', JString ''bad-type.txt''),
                          (''content-type'', JString ''text/plain'')],
                 JObject [(''url'', JString ''http://download.attachment/successful-image.jpg''),
                          (''name'', JString ''successful-image.jpg''),
                          (''content-type'', JString ''image/jpeg'')]]) =
       (Inl (UnsupportedType ''text/plain''), untouched)
   \<and> UnsupportedType ''text/plain'' =
       ValueError (''Unsupported file type '' @ [CHR 0x27] @ ''text/plain'' @ [CHR 0x27])
   \<and> download_attachments example_io untouched
        (JArray [JObject [(''url'', JString ''http://download.attachment/successful-image.jpg''),
                          (''name'', JString ''successful-image.jpg''),
                          (''content-type'', JString ''image/jpeg'')]]) =
       (Inr (''/tmp/successful-image.jpg'', ''image/jpeg''),
        \<lparr>requested = [''http://download.attachment/successful-image.jpg''],
         files = [''/tmp/successful-image.jpg'' \<mapsto> ''JFIF'']\<rparr>)"
proof -
  let ?text = "[(''url'', JString ''http://download.attachment/bad-type.txt''),
             (''name'', JString ''bad-type.txt''),
             (''content-type'', JString ''text/plain'')]"
  have m: "map_of ?text ''url'' = Some (JString ''http://download.attachment/bad-type.txt'')
      \<and> map_of ?text ''name'' = Some (JString ''bad-type.txt'')
      \<and> map_of ?text ''content-type'' = Some (JString ''text/plain'')
      \<and> \<not> prefix ''image'' ''text/plain''"
    by simp
  note c = download_attachments_checks [of example_io untouched]
  note c3 = c [THEN conjunct2, THEN conjunct2, rule_format, OF m]
  have ok: "download_attachments example_io untouched
        (JArray [JObject [(''url'', JString ''http://download.attachment/successful-image.jpg''),
                          (''name'', JString ''successful-image.jpg''),
                          (''content-type'', JString ''image/jpeg'')]]) =
       (Inr (''/tmp/successful-image.jpg'', ''image/jpeg''),
        \<lparr>requested = [''http://download.attachment/successful-image.jpg''],
         files = [''/tmp/successful-image.jpg'' \<mapsto> ''JFIF'']\<rparr>)"
    by (simp add: download_eval)
  show ?thesis
    using c [THEN conjunct1] c3 [THEN conjunct1] m ok
    by (simp add: NoAttachment_def UnsupportedType_def)
qed

end
